theory Spec2Isabelle
  imports Complex_Main "HOL-Library.Word"
begin

unbundle bit_operations_syntax

section \<open>The PX4FLOW optical flow driver (px4flow.cpp)\<close>

text \<open>
  A shallow embedding of \<^verbatim>\<open>src/drivers/optical_flow/px4flow/px4flow.cpp\<close>: the
  poll cycle \<^verbatim>\<open>RunImpl\<close> with its two steps \<^verbatim>\<open>measure\<close> and \<^verbatim>\<open>collect\<close>, the
  restart \<^verbatim>\<open>start\<close> and the constructor.

  Conventions of the model.
  \<^item> C return codes are \<open>int\<close>; \<^verbatim>\<open>uint8_t\<close>, \<^verbatim>\<open>int16_t\<close>, \<^verbatim>\<open>uint32_t\<close> are words, a
    signed field is read with \<open>sint\<close>.
  \<^item> A \<^verbatim>\<open>float\<close> is the real number the binary32 value denotes. Every literal, every
    \<^verbatim>\<open>static_cast<float>\<close> and every division rounds to the nearest binary32 value, ties to
    even (\<open>round_f32\<close>).
  \<^item> A member \<^verbatim>\<open>_name\<close> of the class is the record field \<open>name\<close>.
  \<^item> The debug output (\<^verbatim>\<open>DEVICE_DEBUG\<close>) and the elapsed-time counter \<^verbatim>\<open>_sample_perf\<close>
    have no effect on what the driver publishes or schedules and are left out; the
    members \<^verbatim>\<open>_sensor_min_range\<close>, \<^verbatim>\<open>_sensor_max_range\<close> and \<^verbatim>\<open>_sensor_max_flow_rate\<close> are
    never read or written after their initialisation and are left out as well.
\<close>

subsection \<open>Binary32 arithmetic\<close>

text \<open>
  A finite binary32 value is an integer of magnitude below \<open>2 ^ 24\<close> times a power of two
  no smaller than \<open>2 powi (- 149)\<close>. The quantum of a real \<open>x\<close> is the spacing of the
  binary32 values around it: the least power of two from \<open>2 powi (- 149)\<close> on (the
  spacing of the subnormal and of the smallest normal numbers) that brings the magnitude
  of \<open>x\<close> below \<open>2 ^ 24\<close> quanta, and at most \<open>2 powi 104\<close>, the spacing of the largest
  numbers. Rounding takes \<open>x\<close> to the nearest multiple of its quantum and, half way between
  two, to the even one. Magnitudes of \<open>2 ^ 128\<close> and more, which binary32 rounds to
  infinity, have no real value; no operation of the driver comes near them.
\<close>

definition round_even :: "real \<Rightarrow> int" where
  "round_even x =
     (let f = \<lfloor>x\<rfloor> in
      if x - of_int f < 1 / 2 then f
      else if 1 / 2 < x - of_int f then f + 1
      else if even f then f else f + 1)"

fun f32_quantum_from :: "nat \<Rightarrow> int \<Rightarrow> real \<Rightarrow> int" where
  "f32_quantum_from 0 q x = q"
| "f32_quantum_from (Suc k) q x =
     (if \<bar>x\<bar> < 2 ^ 24 * 2 powi q then q else f32_quantum_from k (q + 1) x)"

definition f32_quantum :: "real \<Rightarrow> int" where
  "f32_quantum x = f32_quantum_from 253 (- 149) x"

definition round_f32 :: "real \<Rightarrow> real" where
  "round_f32 x = of_int (round_even (x / 2 powi f32_quantum x)) * 2 powi f32_quantum x"

text \<open>
  \<^verbatim>\<open>static_cast<float>(n)\<close> of an integer, and the division of two \<^verbatim>\<open>float\<close> values. A
  literal such as \<^verbatim>\<open>0.3f\<close> is \<open>round_f32\<close> of its decimal value.
\<close>

definition f32_of_int :: "int \<Rightarrow> real" where
  "f32_of_int n = round_f32 (of_int n)"

definition f32_div :: "real \<Rightarrow> real \<Rightarrow> real" where
  "f32_div a b = round_f32 (a / b)"

subsection \<open>Constants of the driver\<close>

type_synonym byte = "8 word"

definition OK :: int where
  "OK = 0"

definition PX4_OK :: int where
  "PX4_OK = 0"

definition EIO :: int where
  "EIO = 5"

definition PX4FLOW_REG :: byte where
  "PX4FLOW_REG = 0x16"

definition PX4FLOW_CONVERSION_INTERVAL_DEFAULT :: nat where
  "PX4FLOW_CONVERSION_INTERVAL_DEFAULT = 100000"

definition PX4FLOW_CONVERSION_INTERVAL_MIN :: nat where
  "PX4FLOW_CONVERSION_INTERVAL_MIN = 10000"

definition PX4FLOW_CONVERSION_INTERVAL_MAX :: nat where
  "PX4FLOW_CONVERSION_INTERVAL_MAX = 1000000"

definition PX4FLOW_MAX_DISTANCE :: real where
  "PX4FLOW_MAX_DISTANCE = round_f32 5.0"

definition PX4FLOW_MIN_DISTANCE :: real where
  "PX4FLOW_MIN_DISTANCE = round_f32 0.3"

subsection \<open>What the absent headers declare\<close>

text \<open>
  \<^verbatim>\<open>i2c_frame.h\<close>, \<^verbatim>\<open>drv_sensor.h\<close> and the uORB message headers are not part of the
  sources. The sizes of the two frames, the byte offsets of the fields of
  \<^verbatim>\<open>i2c_integral_frame\<close> that \<^verbatim>\<open>collect\<close> reads, and the two constants the samples are
  tagged with are therefore parameters of the model. The fields are stored as the device
  sends them, least significant byte first.
\<close>

record headers =
  I2C_FRAME_SIZE :: nat
  I2C_INTEGRAL_FRAME_SIZE :: nat
  off_pixel_flow_x_integral :: nat
  off_pixel_flow_y_integral :: nat
  off_gyro_x_rate_integral :: nat
  off_gyro_y_rate_integral :: nat
  off_gyro_z_rate_integral :: nat
  off_integration_timespan :: nat
  off_ground_distance :: nat
  off_qual :: nat
  DRV_DIST_DEVTYPE_PX4FLOW :: byte
  MAV_DISTANCE_SENSOR_ULTRASOUND :: byte

text \<open>
  Modelled from the spec: the struct \<^verbatim>\<open>i2c_integral_frame\<close> of \<^verbatim>\<open>i2c_frame.h\<close> is missing;
  the fields are those \<^verbatim>\<open>collect\<close> reads, with the types of the spec's data model (the
  flow and gyro integrals and the ground distance signed 16-bit, the integration timespan
  unsigned 32-bit, the quality unsigned 8-bit).
\<close>

record i2c_integral_frame =
  pixel_flow_x_integral :: "16 word"
  pixel_flow_y_integral :: "16 word"
  gyro_x_rate_integral :: "16 word"
  gyro_y_rate_integral :: "16 word"
  gyro_z_rate_integral :: "16 word"
  integration_timespan :: "32 word"
  ground_distance :: "16 word"
  qual :: byte

definition byte_at :: "byte list \<Rightarrow> nat \<Rightarrow> byte" where
  "byte_at bs i = (if i < length bs then bs ! i else 0)"

definition u16_at :: "byte list \<Rightarrow> nat \<Rightarrow> 16 word" where
  "u16_at bs i = ucast (byte_at bs i) OR push_bit 8 (ucast (byte_at bs (i + 1)))"

definition u32_at :: "byte list \<Rightarrow> nat \<Rightarrow> 32 word" where
  "u32_at bs i =
     ucast (byte_at bs i) OR push_bit 8 (ucast (byte_at bs (i + 1)))
       OR push_bit 16 (ucast (byte_at bs (i + 2))) OR push_bit 24 (ucast (byte_at bs (i + 3)))"

text \<open>
  The typed view of the bytes of \<^verbatim>\<open>_frame_integral\<close>: what the member accesses
  \<^verbatim>\<open>_frame_integral.pixel_flow_x_integral\<close> and so on return after the \<^verbatim>\<open>memcpy\<close>.
\<close>

definition decode :: "headers \<Rightarrow> byte list \<Rightarrow> i2c_integral_frame" where
  "decode H bs =
     \<lparr> pixel_flow_x_integral = u16_at bs (off_pixel_flow_x_integral H),
       pixel_flow_y_integral = u16_at bs (off_pixel_flow_y_integral H),
       gyro_x_rate_integral = u16_at bs (off_gyro_x_rate_integral H),
       gyro_y_rate_integral = u16_at bs (off_gyro_y_rate_integral H),
       gyro_z_rate_integral = u16_at bs (off_gyro_z_rate_integral H),
       integration_timespan = u32_at bs (off_integration_timespan H),
       ground_distance = u16_at bs (off_ground_distance H),
       qual = byte_at bs (off_qual H) \<rparr>"

subsection \<open>Axis rotation\<close>

text \<open>
  Modelled from the spec: \<^verbatim>\<open>enum Rotation\<close> and \<^verbatim>\<open>rotate_3f\<close> (lib/conversion/rotation.h)
  are missing. The spec describes a fixed enumeration of yaw-only reorientations that
  includes the identity, applied to a 3-vector as a linear transform, and \<^verbatim>\<open>collect\<close>
  says it rotates the measurements in yaw according to the parameter \<^verbatim>\<open>SENS_FLOW_ROT\<close>.
  The yaw steps are the multiples of 45 degrees, and a yaw by the angle \<open>a\<close> maps
  \<open>(x, y, z)\<close> to \<open>(cos a * x - sin a * y, sin a * x + cos a * y, z)\<close>. The cosines and
  sines are exact reals.
\<close>

datatype Rotation =
    ROTATION_NONE
  | ROTATION_YAW_45
  | ROTATION_YAW_90
  | ROTATION_YAW_135
  | ROTATION_YAW_180
  | ROTATION_YAW_225
  | ROTATION_YAW_270
  | ROTATION_YAW_315

fun yaw_cos :: "Rotation \<Rightarrow> real" where
  "yaw_cos ROTATION_NONE = 1"
| "yaw_cos ROTATION_YAW_45 = sqrt 2 / 2"
| "yaw_cos ROTATION_YAW_90 = 0"
| "yaw_cos ROTATION_YAW_135 = - (sqrt 2 / 2)"
| "yaw_cos ROTATION_YAW_180 = - 1"
| "yaw_cos ROTATION_YAW_225 = - (sqrt 2 / 2)"
| "yaw_cos ROTATION_YAW_270 = 0"
| "yaw_cos ROTATION_YAW_315 = sqrt 2 / 2"

fun yaw_sin :: "Rotation \<Rightarrow> real" where
  "yaw_sin ROTATION_NONE = 0"
| "yaw_sin ROTATION_YAW_45 = sqrt 2 / 2"
| "yaw_sin ROTATION_YAW_90 = 1"
| "yaw_sin ROTATION_YAW_135 = sqrt 2 / 2"
| "yaw_sin ROTATION_YAW_180 = 0"
| "yaw_sin ROTATION_YAW_225 = - (sqrt 2 / 2)"
| "yaw_sin ROTATION_YAW_270 = - 1"
| "yaw_sin ROTATION_YAW_315 = - (sqrt 2 / 2)"

text \<open>
  \<^verbatim>\<open>rotate_3f(rot, x, y, z)\<close> updates its three reference arguments; the model returns
  the three new values.
\<close>

fun rotate_3f :: "Rotation \<Rightarrow> real \<times> real \<times> real \<Rightarrow> real \<times> real \<times> real" where
  "rotate_3f rot (x, y, z) =
     (yaw_cos rot * x - yaw_sin rot * y, yaw_sin rot * x + yaw_cos rot * y, z)"

fun inverse_rotation :: "Rotation \<Rightarrow> Rotation" where
  "inverse_rotation ROTATION_NONE = ROTATION_NONE"
| "inverse_rotation ROTATION_YAW_45 = ROTATION_YAW_315"
| "inverse_rotation ROTATION_YAW_90 = ROTATION_YAW_270"
| "inverse_rotation ROTATION_YAW_135 = ROTATION_YAW_225"
| "inverse_rotation ROTATION_YAW_180 = ROTATION_YAW_180"
| "inverse_rotation ROTATION_YAW_225 = ROTATION_YAW_135"
| "inverse_rotation ROTATION_YAW_270 = ROTATION_YAW_90"
| "inverse_rotation ROTATION_YAW_315 = ROTATION_YAW_45"

subsection \<open>Messages, configuration and driver state\<close>

text \<open>
  The struct view \<^verbatim>\<open>devid_s\<close> of the union \<^verbatim>\<open>DeviceId\<close>. The samples carry the struct
  view; its packing into the 32-bit \<^verbatim>\<open>devid\<close> is not modelled.
\<close>

record DeviceStructure =
  bus_type :: "3 word"
  bus :: "5 word"
  address :: byte
  devtype :: byte

text \<open>
  The two uORB messages share their first two fields. Only the fields \<^verbatim>\<open>collect\<close>
  assigns are kept; the others are zero in every published message (\<^verbatim>\<open>report{}\<close>).
  The field \<^verbatim>\<open>type\<close> of \<^verbatim>\<open>distance_sensor_s\<close> is \<open>sensor_type\<close> here.
\<close>

record msg =
  timestamp :: nat
  device_id :: DeviceStructure

record sensor_optical_flow_s = msg +
  timestamp_sample :: nat
  pixel_flow :: "real list"
  delta_angle :: "real list"
  integration_timespan_us :: "32 word"
  quality :: byte
  delta_angle_available :: bool
  max_flow_rate :: real
  min_ground_distance :: real
  max_ground_distance :: real

record distance_sensor_s = msg +
  min_distance :: real
  max_distance :: real
  current_distance :: real
  variance :: real
  signal_quality :: int
  sensor_type :: byte
  orientation :: byte

text \<open>
  \<^verbatim>\<open>I2CSPIDriverConfig\<close>: the rotation code of the command line (\<^verbatim>\<open>-R\<close>, stored into a
  \<^verbatim>\<open>uint8_t\<close> by the constructor) and the device identity the \<^verbatim>\<open>I2C\<close> base class keeps.
\<close>

record I2CSPIDriverConfig =
  rotation :: byte
  config_device_id :: DeviceStructure

record PX4FLOW =
  i2c_device_id :: DeviceStructure
  sonar_rotation :: byte
  sensor_ok :: bool
  collect_phase :: bool
  comms_errors :: nat
  sensor_rotation :: Rotation
  frame :: "byte list"
  frame_integral :: "byte list"

subsection \<open>The environment of one tick\<close>

text \<open>
  What the driver's collaborators answer during one call of \<^verbatim>\<open>RunImpl\<close>.
  \<^item> \<open>transfer send recv_len\<close> is the bus: the return code of \<^verbatim>\<open>I2C::transfer\<close> and the
    bytes received.
  \<^item> Modelled from the spec: \<^verbatim>\<open>hrt_absolute_time\<close> (drv_hrt.h) is missing; the spec's
    Clock is a monotonic microsecond source. \<open>hrt_start\<close> is its first reading of the
    tick and \<open>hrt_elapsed\<close> lists the time that passes between one reading and the next.
  \<^item> \<open>get_instance\<close> is the answer of \<^verbatim>\<open>_distance_sensor_topic.get_instance()\<close>.
\<close>

record env =
  transfer :: "byte list \<Rightarrow> nat \<Rightarrow> int \<times> byte list"
  hrt_start :: nat
  hrt_elapsed :: "nat list"
  get_instance :: int

definition hrt_absolute_time :: "env \<Rightarrow> nat \<Rightarrow> nat" where
  "hrt_absolute_time e k = hrt_start e + sum_list (take k (hrt_elapsed e))"

text \<open>
  What one tick does to the outside: the bus transfers it requests (bytes sent, number
  of bytes to receive), the messages it publishes, and the scheduling calls it makes.
\<close>

datatype schedule = ScheduleNow | ScheduleDelayed nat

record effects =
  bus_log :: "(byte list \<times> nat) list"
  flow_pub :: "sensor_optical_flow_s list"
  distance_pub :: "distance_sensor_s list"
  scheduled :: "schedule list"

definition no_effects :: effects where
  "no_effects = \<lparr> bus_log = [], flow_pub = [], distance_pub = [], scheduled = [] \<rparr>"

text \<open>
  A receive of \<open>n\<close> bytes into the buffer \<open>val\<close>: the first \<open>n\<close> bytes are overwritten
  by what the bus delivered, the rest of the buffer keeps its content.
\<close>

definition recv_into :: "byte list \<Rightarrow> nat \<Rightarrow> byte list \<Rightarrow> byte list" where
  "recv_into val n rx = (let d = take (min n (length val)) rx in d @ drop (length d) val)"

subsection \<open>The driver\<close>

text \<open>
  The constructor. It leaves \<^verbatim>\<open>_frame\<close> and \<^verbatim>\<open>_frame_integral\<close> uninitialised; they are
  zero here, and \<^verbatim>\<open>collect\<close> overwrites \<^verbatim>\<open>_frame_integral\<close> before it reads it.
\<close>

definition PX4FLOW_new :: "headers \<Rightarrow> I2CSPIDriverConfig \<Rightarrow> PX4FLOW" where
  "PX4FLOW_new H config =
     \<lparr> i2c_device_id = config_device_id config,
       sonar_rotation = rotation config,
       sensor_ok = False,
       collect_phase = False,
       comms_errors = 0,
       sensor_rotation = ROTATION_NONE,
       frame = replicate (I2C_FRAME_SIZE H) 0,
       frame_integral = replicate (I2C_INTEGRAL_FRAME_SIZE H) 0 \<rparr>"

definition measure_px4flow :: "env \<Rightarrow> PX4FLOW \<times> effects \<Rightarrow> int \<times> PX4FLOW \<times> effects" where
  "measure_px4flow e sw =
     (case sw of (s, w) \<Rightarrow>
        let cmd = PX4FLOW_REG;
            ret = fst (transfer e [cmd] 0);
            w1 = w\<lparr>bus_log := bus_log w @ [([cmd], 0)]\<rparr>
        in if OK \<noteq> ret then (ret, s\<lparr>comms_errors := comms_errors s + 1\<rparr>, w1)
           else (PX4_OK, s, w1))"

definition collect_reg ::
  "byte \<Rightarrow> headers \<Rightarrow> env \<Rightarrow> PX4FLOW \<times> effects \<Rightarrow> int \<times> PX4FLOW \<times> effects" where
  "collect_reg reg H e sw =
     (case sw of (s, w) \<Rightarrow>
        let ret0 = - EIO;
            val0 = replicate (I2C_FRAME_SIZE H + I2C_INTEGRAL_FRAME_SIZE H) (0 :: byte);
            full = I2C_FRAME_SIZE H + I2C_INTEGRAL_FRAME_SIZE H;
            (ret1, val1, w1) =
              (if reg = 0x00
               then (fst (transfer e [] full), recv_into val0 full (snd (transfer e [] full)),
                     w\<lparr>bus_log := bus_log w @ [([], full)]\<rparr>)
               else (ret0, val0, w));
            part = I2C_INTEGRAL_FRAME_SIZE H;
            (ret, val, w2) =
              (if reg = 0x16
               then (fst (transfer e [] part), recv_into val1 part (snd (transfer e [] part)),
                     w1\<lparr>bus_log := bus_log w1 @ [([], part)]\<rparr>)
               else (ret1, val1, w1))
        in if ret < 0 then (ret, s\<lparr>comms_errors := comms_errors s + 1\<rparr>, w2)
           else
             let s1 = (if reg = 0
                       then s\<lparr>frame := take (I2C_FRAME_SIZE H) val,
                               frame_integral :=
                                 take (I2C_INTEGRAL_FRAME_SIZE H) (drop (I2C_FRAME_SIZE H) val)\<rparr>
                       else s);
                 s2 = (if reg = 0x16
                       then s1\<lparr>frame_integral := take (I2C_INTEGRAL_FRAME_SIZE H) val\<rparr>
                       else s1);
                 fi = decode H (frame_integral s2);
                 device_id = (i2c_device_id s2)
                    \<lparr>devtype := DRV_DIST_DEVTYPE_PX4FLOW H, address := address (i2c_device_id s2)\<rparr>;
                 ts_sample = hrt_absolute_time e 0;
                 pf0 = f32_div (f32_of_int (sint (pixel_flow_x_integral fi))) (round_f32 10000);
                 pf1 = f32_div (f32_of_int (sint (pixel_flow_y_integral fi))) (round_f32 10000);
                 da0 = f32_div (f32_of_int (sint (gyro_x_rate_integral fi))) (round_f32 10000);
                 da1 = f32_div (f32_of_int (sint (gyro_y_rate_integral fi))) (round_f32 10000);
                 da2 = f32_div (f32_of_int (sint (gyro_z_rate_integral fi))) (round_f32 10000);
                 zeroval = round_f32 0;
                 (pfx, pfy, zv) = rotate_3f (sensor_rotation s2) (pf0, pf1, zeroval);
                 (dax, day, daz) = rotate_3f (sensor_rotation s2) (da0, da1, da2);
                 report = \<lparr> timestamp = hrt_absolute_time e 1,
                            device_id = device_id,
                            timestamp_sample = ts_sample,
                            pixel_flow = [pfx, pfy],
                            delta_angle = [dax, day, daz],
                            integration_timespan_us = integration_timespan fi,
                            quality = qual fi,
                            delta_angle_available = True,
                            max_flow_rate = round_f32 2.5,
                            min_ground_distance = round_f32 0.7,
                            max_ground_distance = round_f32 3 \<rparr>;
                 w3 = w2\<lparr>flow_pub := flow_pub w2 @ [report]\<rparr>;
                 w4 = (if get_instance e = 0
                       then
                         let distance_report =
                               \<lparr> timestamp = hrt_absolute_time e 2,
                                 device_id = device_id,
                                 min_distance = PX4FLOW_MIN_DISTANCE,
                                 max_distance = PX4FLOW_MAX_DISTANCE,
                                 current_distance =
                                   f32_div (f32_of_int (sint (ground_distance fi)))
                                     (round_f32 1000),
                                 variance = round_f32 0,
                                 signal_quality = - 1,
                                 sensor_type = MAV_DISTANCE_SENSOR_ULTRASOUND H,
                                 orientation = sonar_rotation s2 \<rparr>
                         in w3\<lparr>distance_pub := distance_pub w3 @ [distance_report]\<rparr>
                       else w3)
             in (PX4_OK, s2, w4))"

definition collect :: "headers \<Rightarrow> env \<Rightarrow> PX4FLOW \<times> effects \<Rightarrow> int \<times> PX4FLOW \<times> effects" where
  "collect = collect_reg PX4FLOW_REG"

definition start :: "PX4FLOW \<times> effects \<Rightarrow> PX4FLOW \<times> effects" where
  "start sw =
     (case sw of (s, w) \<Rightarrow>
        (s\<lparr>collect_phase := False\<rparr>, w\<lparr>scheduled := scheduled w @ [ScheduleNow]\<rparr>))"

definition RunImpl :: "headers \<Rightarrow> env \<Rightarrow> PX4FLOW \<Rightarrow> PX4FLOW \<times> effects" where
  "RunImpl H e s =
     (case measure_px4flow e (s, no_effects) of (mret, s1, w1) \<Rightarrow>
        case collect H e (s1, w1) of (cret, s2, w2) \<Rightarrow>
          if OK \<noteq> cret then start (s2, w2)
          else (s2, w2\<lparr>scheduled :=
                         scheduled w2 @ [ScheduleDelayed PX4FLOW_CONVERSION_INTERVAL_DEFAULT]\<rparr>))"

text \<open>A run of the driver: one tick per environment, in order.\<close>

fun run :: "headers \<Rightarrow> env list \<Rightarrow> PX4FLOW \<Rightarrow> effects list \<times> PX4FLOW" where
  "run H [] s = ([], s)"
| "run H (e # es) s =
     (case RunImpl H e s of (s1, w) \<Rightarrow>
        case run H es s1 of (ws, s2) \<Rightarrow> (w # ws, s2))"

subsection \<open>Notions used in the statements\<close>

text \<open>
  The return code of the bus write of \<^verbatim>\<open>measure\<close>, the return code of the bus read of
  \<^verbatim>\<open>collect\<close>, and the bytes that \<^verbatim>\<open>collect\<close> copies into \<^verbatim>\<open>_frame_integral\<close> after a
  successful read (the compiled register is \<^verbatim>\<open>0x16\<close>, the integral frame alone).
\<close>

abbreviation measure_status :: "env \<Rightarrow> int" where
  "measure_status e \<equiv> fst (transfer e [PX4FLOW_REG] 0)"

abbreviation collect_status :: "headers \<Rightarrow> env \<Rightarrow> int" where
  "collect_status H e \<equiv> fst (transfer e [] (I2C_INTEGRAL_FRAME_SIZE H))"

definition received_frame :: "headers \<Rightarrow> env \<Rightarrow> byte list" where
  "received_frame H e =
     take (I2C_INTEGRAL_FRAME_SIZE H)
       (recv_into (replicate (I2C_FRAME_SIZE H + I2C_INTEGRAL_FRAME_SIZE H) 0)
          (I2C_INTEGRAL_FRAME_SIZE H) (snd (transfer e [] (I2C_INTEGRAL_FRAME_SIZE H))))"

text \<open>
  Modelled from the spec: \<^verbatim>\<open>uORB::PublicationMulti\<close> is missing. The spec's primary
  instance of a topic is the first-registered one: the publishers of a topic are numbered
  in the order of their registration, from 0. A system of concurrently running driver
  instances is a list of drivers, each with the environment of its tick, in the order of
  their registration; the instances share no state, so a tick of the system is a tick of
  each.
\<close>

definition uorb_instance :: "nat \<Rightarrow> int" where
  "uorb_instance k = int k"

definition registered :: "(PX4FLOW \<times> env) list \<Rightarrow> bool" where
  "registered sys = (map (\<lambda>se. get_instance (snd se)) sys = map uorb_instance [0..<length sys])"

definition tick_all :: "headers \<Rightarrow> (PX4FLOW \<times> env) list \<Rightarrow> effects list" where
  "tick_all H sys = map (\<lambda>se. snd (RunImpl H (snd se) (fst se))) sys"

subsection \<open>A concrete device for the examples\<close>

text \<open>
  An instance of the parameters: the packed layout of a 22-byte frame and a 25-byte
  integral frame (frame count at 0, flow at 2 and 4, gyro at 6, 8 and 10, timespan at 12,
  sonar timestamp at 16, ground distance at 20, gyro temperature at 22, quality at 24),
  with two example tags. The integral frame of the example holds a flow of 5000 and
  -2500, no rotation rate, a timespan of 100000 microseconds, a ground distance of 1500
  millimetres and the quality 200.
\<close>

definition px4flow_headers :: headers where
  "px4flow_headers =
     \<lparr> I2C_FRAME_SIZE = 22, I2C_INTEGRAL_FRAME_SIZE = 25,
       off_pixel_flow_x_integral = 2, off_pixel_flow_y_integral = 4,
       off_gyro_x_rate_integral = 6, off_gyro_y_rate_integral = 8,
       off_gyro_z_rate_integral = 10, off_integration_timespan = 12,
       off_ground_distance = 20, off_qual = 24,
       DRV_DIST_DEVTYPE_PX4FLOW = 0x50, MAV_DISTANCE_SENSOR_ULTRASOUND = 1 \<rparr>"

definition scenario_frame :: "byte list" where
  "scenario_frame =
     [0x01, 0x00, 0x88, 0x13, 0x3C, 0xF6, 0x00, 0x00, 0x00, 0x00, 0x00, 0x00,
      0xA0, 0x86, 0x01, 0x00, 0x00, 0x00, 0x00, 0x00, 0xDC, 0x05, 0x00, 0x00, 0xC8]"

text \<open>
  An environment whose bus answers the write of \<^verbatim>\<open>measure\<close> with \<open>mret\<close> and the read of
  \<^verbatim>\<open>collect\<close> with \<open>cret\<close> and the example frame, with the clock at one second and 30 and
  20 microseconds between its readings.
\<close>

definition example_env :: "int \<Rightarrow> int \<Rightarrow> int \<Rightarrow> env" where
  "example_env mret cret inst =
     \<lparr> transfer = (\<lambda>send n. if send = [] then (cret, take n scenario_frame) else (mret, [])),
       hrt_start = 1000000, hrt_elapsed = [30, 20], get_instance = inst \<rparr>"

definition example_config :: "byte \<Rightarrow> I2CSPIDriverConfig" where
  "example_config r =
     \<lparr> rotation = r,
       config_device_id = \<lparr> bus_type = 1, bus = 1, address = 0x42, devtype = 0 \<rparr> \<rparr>"

definition example_driver :: PX4FLOW where
  "example_driver = PX4FLOW_new px4flow_headers (example_config 25)"

text \<open>
  A second integral frame, with a flow of 1 and 0, no rotation rate, a timespan of 100000
  microseconds, a ground distance of 1 millimetre and the quality 200, and an environment
  whose bus delivers it to the primary instance.
\<close>

definition unit_frame :: "byte list" where
  "unit_frame =
     [0x01, 0x00, 0x01, 0x00, 0x00, 0x00, 0x00, 0x00, 0x00, 0x00, 0x00, 0x00,
      0xA0, 0x86, 0x01, 0x00, 0x00, 0x00, 0x00, 0x00, 0x01, 0x00, 0x00, 0x00, 0xC8]"

definition unit_env :: env where
  "unit_env =
     \<lparr> transfer = (\<lambda>send n. if send = [] then (0, take n unit_frame) else (0, [])),
       hrt_start = 1000000, hrt_elapsed = [30, 20], get_instance = 0 \<rparr>"

text \<open>
  An environment for the full-frame register: the bus delivers a 22-byte frame followed by
  the example integral frame.
\<close>

definition full_frame_env :: env where
  "full_frame_env =
     \<lparr> transfer = (\<lambda>send n. (0, take n (replicate 22 0xAA @ scenario_frame))),
       hrt_start = 1000000, hrt_elapsed = [30, 20], get_instance = 0 \<rparr>"

text \<open>
  Three driver instances in the order of their registration; the write of \<^verbatim>\<open>measure\<close>
  fails on the third, the read of \<^verbatim>\<open>collect\<close> succeeds on all.
\<close>

definition example_system :: "(PX4FLOW \<times> env) list" where
  "example_system =
     [(example_driver, example_env 0 0 0), (example_driver, example_env 0 0 1),
      (example_driver, example_env (- 5) 0 2)]"

section \<open>Properties\<close>

subsection \<open>Rounding to binary32\<close>

lemma round_even_of_int: "round_even (of_int j) = j"
  by (simp add: round_even_def)

lemma round_even_error: "\<bar>of_int (round_even x) - x\<bar> \<le> 1 / 2"
proof -
  have "of_int \<lfloor>x\<rfloor> \<le> x" "x < of_int \<lfloor>x\<rfloor> + 1"
    by linarith+
  then show ?thesis
    by (auto simp add: round_even_def Let_def)
qed

lemma f32_quantum_from_least:
  "q \<le> q' \<Longrightarrow> \<bar>x\<bar> < 2 ^ 24 * 2 powi q' \<Longrightarrow> f32_quantum_from k q x \<le> q'"
proof (induction k arbitrary: q)
  case 0
  then show ?case by simp
next
  case (Suc k)
  show ?case
  proof (cases "\<bar>x\<bar> < 2 ^ 24 * 2 powi q")
    case True
    then show ?thesis using Suc.prems by simp
  next
    case False
    with Suc.prems have "q \<noteq> q'" by auto
    with Suc.prems have "q + 1 \<le> q'" by simp
    then show ?thesis
      using False Suc.IH [of "q + 1"] Suc.prems by simp
  qed
qed

lemma f32_quantum_from_ge: "q \<le> f32_quantum_from k q x"
proof (induction k arbitrary: q)
  case 0
  show ?case by simp
next
  case (Suc k)
  show ?case
    using Suc.IH [of "q + 1"] by simp
qed

lemma f32_quantum_from_above:
  "q < f32_quantum_from k q x \<Longrightarrow> 2 ^ 24 * 2 powi (f32_quantum_from k q x - 1) \<le> \<bar>x\<bar>"
proof (induction k arbitrary: q)
  case 0
  then show ?case by simp
next
  case (Suc k)
  show ?case
  proof (cases "\<bar>x\<bar> < 2 ^ 24 * 2 powi q")
    case True
    then show ?thesis using Suc.prems by simp
  next
    case False
    show ?thesis
    proof (cases "q + 1 < f32_quantum_from k (q + 1) x")
      case True
      then show ?thesis
        using False Suc.IH [of "q + 1"] by simp
    next
      case less: False
      then have "f32_quantum_from k (q + 1) x = q + 1"
        using f32_quantum_from_ge [of "q + 1" k x] by simp
      then show ?thesis
        using False by simp
    qed
  qed
qed

lemma f32_quantum_from_valid:
  "\<bar>x\<bar> < 2 ^ 24 * 2 powi (q + int k) \<Longrightarrow> \<bar>x\<bar> < 2 ^ 24 * 2 powi f32_quantum_from k q x"
proof (induction k arbitrary: q)
  case 0
  then show ?case by simp
next
  case (Suc k)
  show ?case
  proof (cases "\<bar>x\<bar> < 2 ^ 24 * 2 powi q")
    case True
    then show ?thesis by simp
  next
    case False
    have eq: "q + int (Suc k) = q + 1 + int k" by simp
    have "\<bar>x\<bar> < 2 ^ 24 * 2 powi (q + 1 + int k)"
      using Suc.prems unfolding eq .
    then have "\<bar>x\<bar> < 2 ^ 24 * 2 powi f32_quantum_from k (q + 1) x"
      by (rule Suc.IH)
    then show ?thesis
      using False by simp
  qed
qed

lemma f32_quantum_eqI:
  assumes "- 149 \<le> q" and "q \<le> 104" and "\<bar>x\<bar> < 2 ^ 24 * 2 powi q"
    and "q = - 149 \<or> 2 ^ 24 * 2 powi (q - 1) \<le> \<bar>x\<bar>"
  shows "f32_quantum x = q"
proof -
  have le: "f32_quantum x \<le> q"
    unfolding f32_quantum_def using assms(1,3) by (rule f32_quantum_from_least)
  have ge: "- 149 \<le> f32_quantum x"
    unfolding f32_quantum_def by (rule f32_quantum_from_ge)
  show ?thesis
  proof (rule ccontr)
    assume "f32_quantum x \<noteq> q"
    with le have lt: "f32_quantum x < q" by simp
    with ge assms(4) have low: "2 ^ 24 * 2 powi (q - 1) \<le> \<bar>x\<bar>" by auto
    have "(2::real) powi q \<le> 2 powi (- 149 + int 253)"
      using assms(2) by (intro power_int_increasing) simp_all
    with assms(3) have "\<bar>x\<bar> < 2 ^ 24 * 2 powi (- 149 + int 253)"
      by (smt (verit) mult_left_mono zero_le_numeral zero_le_power)
    then have valid: "\<bar>x\<bar> < 2 ^ 24 * 2 powi f32_quantum x"
      unfolding f32_quantum_def by (rule f32_quantum_from_valid)
    have "(2::real) powi f32_quantum x \<le> 2 powi (q - 1)"
      using lt by (intro power_int_increasing) simp_all
    with valid have "\<bar>x\<bar> < 2 ^ 24 * 2 powi (q - 1)"
      by (smt (verit) mult_left_mono zero_le_numeral zero_le_power)
    with low show False by simp
  qed
qed

lemma round_f32_eqI:
  assumes "- 149 \<le> q" and "q \<le> 104" and "\<bar>x\<bar> < 2 ^ 24 * 2 powi q"
    and "q = - 149 \<or> 2 ^ 24 * 2 powi (q - 1) \<le> \<bar>x\<bar>"
    and "round_even (x / 2 powi q) = m"
  shows "round_f32 x = of_int m * 2 powi q"
  using f32_quantum_eqI [OF assms(1-4)] assms(5) by (simp add: round_f32_def)

lemma round_f32_representable:
  assumes "\<bar>m\<bar> < 2 ^ 24" and "- 149 \<le> q"
  shows "round_f32 (of_int m * 2 powi q) = of_int m * 2 powi q"
proof -
  define r where "r = f32_quantum (of_int m * 2 powi q)"
  have "\<bar>of_int m * (2::real) powi q\<bar> = of_int \<bar>m\<bar> * 2 powi q"
    by (simp add: abs_mult)
  also have "\<dots> < 2 ^ 24 * 2 powi q"
    using assms(1) by (simp add: of_int_less_numeral_power_cancel_iff)
  finally have "r \<le> q"
    unfolding r_def f32_quantum_def using assms(2) f32_quantum_from_least by blast
  then obtain d where d: "q = r + int d"
    by (metis zle_iff_zadd)
  have scaled: "of_int m * (2::real) powi q / 2 powi r = of_int (m * 2 ^ d)"
    by (simp add: d power_int_add)
  have "round_f32 (of_int m * 2 powi q) =
      of_int (round_even (of_int m * 2 powi q / 2 powi r)) * 2 powi r"
    by (simp add: round_f32_def r_def)
  also have "\<dots> = of_int (m * 2 ^ d) * 2 powi r"
    by (simp only: scaled round_even_of_int)
  also have "\<dots> = of_int m * 2 powi q"
    by (simp add: d power_int_add)
  finally show ?thesis .
qed

lemma round_f32_error:
  assumes "2 powi (- 126) \<le> \<bar>x\<bar>"
  shows "\<bar>round_f32 x - x\<bar> \<le> \<bar>x\<bar> / 2 ^ 24"
proof -
  define r where "r = f32_quantum x"
  define a where "a = real_of_int (round_even (x / 2 powi r))"
  have pos: "(0::real) < 2 powi r" by simp
  have "\<bar>a - x / 2 powi r\<bar> \<le> 1 / 2"
    unfolding a_def by (rule round_even_error)
  then have "\<bar>a - x / 2 powi r\<bar> * 2 powi r \<le> 1 / 2 * 2 powi r"
    using pos by (intro mult_right_mono) simp_all
  moreover have "\<bar>a - x / 2 powi r\<bar> * 2 powi r = \<bar>(a - x / 2 powi r) * 2 powi r\<bar>"
    by (simp add: abs_mult)
  moreover have "(a - x / 2 powi r) * 2 powi r = a * 2 powi r - x"
    by (simp add: field_simps)
  moreover have "round_f32 x = a * 2 powi r"
    by (simp add: round_f32_def a_def r_def)
  ultimately have err: "\<bar>round_f32 x - x\<bar> \<le> 2 powi r / 2"
    by simp
  have "2 powi r / 2 \<le> \<bar>x\<bar> / 2 ^ 24"
  proof (cases "r = - 149")
    case True
    have "(2::real) powi (- 149) / 2 = 2 powi (- 126) / 2 ^ 24"
      by (simp add: power_int_minus field_simps)
    also have "\<dots> \<le> \<bar>x\<bar> / 2 ^ 24"
      using assms by (intro divide_right_mono) simp_all
    finally show ?thesis
      by (simp only: True)
  next
    case False
    moreover have "- 149 \<le> r"
      unfolding r_def f32_quantum_def by (rule f32_quantum_from_ge)
    ultimately have "- 149 < r" by simp
    then have "2 ^ 24 * 2 powi (r - 1) \<le> \<bar>x\<bar>"
      unfolding r_def f32_quantum_def by (rule f32_quantum_from_above)
    then show ?thesis
      by (simp add: power_int_diff field_simps)
  qed
  with err show ?thesis by simp
qed

text \<open>The binary32 values of the literals and of the quotients of the examples.\<close>

lemma round_f32_exact_values:
  "round_f32 0 = 0" "round_f32 10000 = 10000" "round_f32 1000 = 1000" "round_f32 5 = 5"
  "round_f32 3 = 3" "round_f32 (5 / 2) = 5 / 2" "round_f32 (1 / 2) = 1 / 2"
  "round_f32 (- (1 / 4)) = - (1 / 4)" "round_f32 (3 / 2) = 3 / 2"
  using round_f32_representable [of 0 0] round_f32_representable [of 10000 0]
    round_f32_representable [of 1000 0] round_f32_representable [of 5 0]
    round_f32_representable [of 3 0] round_f32_representable [of 5 "- 1"]
    round_f32_representable [of 1 "- 1"] round_f32_representable [of "- 1" "- 2"]
    round_f32_representable [of 3 "- 1"]
  by (simp_all add: power_int_minus)

lemma round_f32_three_tenths: "round_f32 (3 / 10) = 5033165 / 16777216"
proof -
  have "round_even (3 / 10 / 2 powi (- 25)) = 10066330"
    by (simp add: round_even_def power_int_minus)
  from round_f32_eqI [of "- 25" "3 / 10", OF _ _ _ _ this]
  show ?thesis
    by (simp add: power_int_minus)
qed

lemma round_f32_seven_tenths: "round_f32 (7 / 10) = 11744051 / 16777216"
proof -
  have "round_even (7 / 10 / 2 powi (- 24)) = 11744051"
    by (simp add: round_even_def power_int_minus)
  from round_f32_eqI [of "- 24" "7 / 10", OF _ _ _ _ this]
  show ?thesis
    by (simp add: power_int_minus)
qed

lemma round_f32_ten_thousandth: "round_f32 (1 / 10000) = 13743895 / 137438953472"
proof -
  have "round_even (1 / 10000 / 2 powi (- 37)) = 13743895"
    by (simp add: round_even_def power_int_minus)
  from round_f32_eqI [of "- 37" "1 / 10000", OF _ _ _ _ this]
  show ?thesis
    by (simp add: power_int_minus)
qed

lemma round_f32_thousandth: "round_f32 (1 / 1000) = 8589935 / 8589934592"
proof -
  have "round_even (1 / 1000 / 2 powi (- 33)) = 8589935"
    by (simp add: round_even_def power_int_minus)
  from round_f32_eqI [of "- 33" "1 / 1000", OF _ _ _ _ this]
  show ?thesis
    by (simp add: power_int_minus)
qed

lemmas round_f32_values = round_f32_exact_values round_f32_three_tenths
  round_f32_seven_tenths round_f32_ten_thousandth round_f32_thousandth

text \<open>The cast of a 16-bit integer is exact; the quotient by a positive integer is rounded.\<close>

lemma sint16_small: "\<bar>sint (w :: 16 word)\<bar> < 2 ^ 24"
  using sint_ge [of w] sint_lt [of w] by simp

lemma f32_of_int_sint16: "f32_of_int (sint (w :: 16 word)) = real_of_int (sint w)"
  using round_f32_representable [of "sint w" 0] sint16_small [of w]
  by (simp add: f32_of_int_def)

lemma round_f32_quotient_error:
  assumes "0 < c" and "c \<le> 10000"
  shows "\<bar>round_f32 (real_of_int n / c) - real_of_int n / c\<bar> \<le> \<bar>real_of_int n / c\<bar> / 2 ^ 24"
proof (cases "n = 0")
  case True
  then show ?thesis by (simp add: round_f32_exact_values)
next
  case False
  then have "1 \<le> \<bar>n\<bar>" by simp
  then have "real_of_int 1 \<le> real_of_int \<bar>n\<bar>"
    by (simp only: of_int_le_iff)
  then have "1 \<le> \<bar>real_of_int n\<bar>" by simp
  then have "1 / 10000 \<le> \<bar>real_of_int n\<bar> / c"
    using assms by (intro frac_le) simp_all
  moreover have "(2::real) powi (- 126) \<le> 1 / 10000"
    by (simp add: power_int_minus field_simps)
  ultimately have "2 powi (- 126) \<le> \<bar>real_of_int n / c\<bar>"
    using assms by simp
  then show ?thesis
    by (rule round_f32_error)
qed

lemma round_f32_quotient_exact:
  assumes "n = k * m" and "\<bar>m\<bar> < 2 ^ 24" and "real_of_int k / c = 2 powi q" and "- 149 \<le> q"
  shows "round_f32 (real_of_int n / c) = real_of_int n / c"
proof -
  have "real_of_int n / c = real_of_int m * (real_of_int k / c)"
    by (simp add: assms(1))
  then have "real_of_int n / c = real_of_int m * 2 powi q"
    by (simp only: assms(3))
  then show ?thesis
    using round_f32_representable [OF assms(2,4)] by simp
qed

subsection \<open>Auxiliary facts\<close>

lemma byte_range: "unat (b :: byte) \<le> 255"
  using unsigned_less [of b, where ?'a = nat] by simp

lemmas tick_defs = RunImpl_def measure_px4flow_def collect_def collect_reg_def start_def
  PX4FLOW_REG_def Let_def received_frame_def no_effects_def OK_def PX4_OK_def EIO_def

lemmas float_defs = f32_div_def f32_of_int_sint16 round_f32_exact_values
  round_f32_three_tenths round_f32_seven_tenths PX4FLOW_MIN_DISTANCE_def
  PX4FLOW_MAX_DISTANCE_def

lemma measure_status_ret: "fst (measure_px4flow e (s, w)) = OK \<longleftrightarrow> measure_status e = OK"
  by (auto simp add: tick_defs)

lemma collect_status_ret: "fst (collect H e (s, w)) = OK \<longleftrightarrow> \<not> collect_status H e < 0"
  by (auto simp add: tick_defs split: prod.splits)

lemma RunImpl_collect_failure:
  assumes "collect_status H e < 0"
  shows "RunImpl H e s =
           (s\<lparr>comms_errors := comms_errors s + (if OK \<noteq> measure_status e then 2 else 1),
              collect_phase := False\<rparr>,
            \<lparr> bus_log = [([PX4FLOW_REG], 0), ([], I2C_INTEGRAL_FRAME_SIZE H)],
              flow_pub = [], distance_pub = [], scheduled = [ScheduleNow] \<rparr>)"
  using assms by (simp add: tick_defs)

lemma RunImpl_collect_success:
  assumes "\<not> collect_status H e < 0"
  shows "fst (RunImpl H e s) =
           s\<lparr>comms_errors := comms_errors s + (if OK \<noteq> measure_status e then 1 else 0),
              frame_integral := received_frame H e\<rparr>"
    and "bus_log (snd (RunImpl H e s)) = [([PX4FLOW_REG], 0), ([], I2C_INTEGRAL_FRAME_SIZE H)]"
    and "scheduled (snd (RunImpl H e s)) = [ScheduleDelayed PX4FLOW_CONVERSION_INTERVAL_DEFAULT]"
    and "length (flow_pub (snd (RunImpl H e s))) = 1"
    and "length (distance_pub (snd (RunImpl H e s))) = (if get_instance e = 0 then 1 else 0)"
  using assms by (simp_all add: tick_defs split: prod.splits)

lemma RunImpl_success_effects:
  assumes "sensor_rotation s = ROTATION_NONE" and "\<not> collect_status H e < 0"
  shows "snd (RunImpl H e s) =
     (let fi = decode H (received_frame H e);
          dev = (i2c_device_id s)\<lparr>devtype := DRV_DIST_DEVTYPE_PX4FLOW H\<rparr> in
      \<lparr> bus_log = [([PX4FLOW_REG], 0), ([], I2C_INTEGRAL_FRAME_SIZE H)],
        flow_pub =
          [\<lparr> timestamp = hrt_absolute_time e 1, device_id = dev,
             timestamp_sample = hrt_absolute_time e 0,
             pixel_flow = [round_f32 (real_of_int (sint (pixel_flow_x_integral fi)) / 10000),
                           round_f32 (real_of_int (sint (pixel_flow_y_integral fi)) / 10000)],
             delta_angle = [round_f32 (real_of_int (sint (gyro_x_rate_integral fi)) / 10000),
                            round_f32 (real_of_int (sint (gyro_y_rate_integral fi)) / 10000),
                            round_f32 (real_of_int (sint (gyro_z_rate_integral fi)) / 10000)],
             integration_timespan_us = integration_timespan fi, quality = qual fi,
             delta_angle_available = True,
             max_flow_rate = 5 / 2, min_ground_distance = 11744051 / 16777216,
             max_ground_distance = 3 \<rparr>],
        distance_pub =
          (if get_instance e = 0
           then [\<lparr> timestamp = hrt_absolute_time e 2, device_id = dev,
                   min_distance = 5033165 / 16777216, max_distance = 5,
                   current_distance =
                     round_f32 (real_of_int (sint (ground_distance fi)) / 1000),
                   variance = 0, signal_quality = - 1,
                   sensor_type = MAV_DISTANCE_SENSOR_ULTRASOUND H,
                   orientation = sonar_rotation s \<rparr>]
           else []),
        scheduled = [ScheduleDelayed PX4FLOW_CONVERSION_INTERVAL_DEFAULT] \<rparr>)"
  using assms by (simp add: tick_defs float_defs split: prod.splits)

text \<open>
  No tick changes the two rotations of the driver: the vector rotation is
  \<^verbatim>\<open>ROTATION_NONE\<close> from the constructor on.
\<close>

lemma PX4FLOW_new_sensor_rotation: "sensor_rotation (PX4FLOW_new H config) = ROTATION_NONE"
  by (simp add: PX4FLOW_new_def)

lemma RunImpl_sensor_rotation: "sensor_rotation (fst (RunImpl H e s)) = sensor_rotation s"
  by (simp add: tick_defs split: prod.splits)

lemma RunImpl_sonar_rotation: "sonar_rotation (fst (RunImpl H e s)) = sonar_rotation s"
  by (simp add: tick_defs split: prod.splits)

lemma run_Cons_snd: "snd (run H (e # es) s) = snd (run H es (fst (RunImpl H e s)))"
  by (simp split: prod.splits)

lemma run_sensor_rotation: "sensor_rotation (snd (run H es s)) = sensor_rotation s"
proof (induction es arbitrary: s)
  case Nil
  show ?case by simp
next
  case (Cons e es)
  show ?case
    unfolding run_Cons_snd by (simp add: Cons.IH RunImpl_sensor_rotation)
qed

lemma take_recv_into:
  "length rx = n \<Longrightarrow> n \<le> length val \<Longrightarrow> take n (recv_into val n rx) = rx"
  by (simp add: recv_into_def Let_def min_def)

lemma run_Cons_fst:
  "fst (run H (e # es) s) = snd (RunImpl H e s) # fst (run H es (fst (RunImpl H e s)))"
  by (simp split: prod.splits)

lemma RunImpl_retag:
  "RunImpl H e (s\<lparr>sonar_rotation := r\<rparr>) =
     ((fst (RunImpl H e s))\<lparr>sonar_rotation := r\<rparr>,
      (snd (RunImpl H e s))
        \<lparr>distance_pub := map (\<lambda>d. d\<lparr>orientation := r\<rparr>) (distance_pub (snd (RunImpl H e s)))\<rparr>)"
  by (simp add: tick_defs split: prod.splits)

lemma run_retag:
  "fst (run H es (s\<lparr>sonar_rotation := r\<rparr>)) =
     map (\<lambda>w. w\<lparr>distance_pub := map (\<lambda>d. d\<lparr>orientation := r\<rparr>) (distance_pub w)\<rparr>)
       (fst (run H es s))"
proof (induction es arbitrary: s)
  case Nil
  show ?case by simp
next
  case (Cons e es)
  show ?case
    unfolding run_Cons_fst by (simp add: RunImpl_retag Cons.IH)
qed

lemma run_orientation:
  "map (map orientation \<circ> distance_pub) (fst (run H es s)) =
   map (map (\<lambda>d. sonar_rotation s) \<circ> distance_pub) (fst (run H es s))"
proof (induction es arbitrary: s)
  case Nil
  show ?case by simp
next
  case (Cons e es)
  have tick: "map orientation (distance_pub (snd (RunImpl H e s))) =
        map (\<lambda>d. sonar_rotation s) (distance_pub (snd (RunImpl H e s)))"
    by (simp add: tick_defs split: prod.splits)
  have rot: "sonar_rotation (fst (RunImpl H e s)) = sonar_rotation s"
    by (simp add: tick_defs split: prod.splits)
  show ?case
    unfolding run_Cons_fst using tick Cons.IH [of "fst (RunImpl H e s)"] by (simp add: rot)
qed

lemma registered_Cons:
  assumes "registered (se # sys)"
  shows "get_instance (snd se) = 0" and "\<forall>x \<in> set sys. get_instance (snd x) \<noteq> 0"
proof -
  have eq: "map (\<lambda>se. get_instance (snd se)) (se # sys) =
      map uorb_instance (0 # map Suc [0..<length sys])"
    using assms by (simp add: registered_def upt_conv_Cons map_Suc_upt del: upt_Suc)
  then show "get_instance (snd se) = 0"
    by (simp add: uorb_instance_def)
  from eq have "map (\<lambda>se. get_instance (snd se)) sys = map (uorb_instance \<circ> Suc) [0..<length sys]"
    by simp
  then have img: "set (map (\<lambda>se. get_instance (snd se)) sys) =
      set (map (uorb_instance \<circ> Suc) [0..<length sys])"
    by simp
  show "\<forall>x \<in> set sys. get_instance (snd x) \<noteq> 0"
  proof
    fix x
    assume "x \<in> set sys"
    then have "get_instance (snd x) \<in> set (map (\<lambda>se. get_instance (snd se)) sys)"
      by simp
    then have "get_instance (snd x) \<in> set (map (uorb_instance \<circ> Suc) [0..<length sys])"
      by (simp only: img)
    then obtain k where "get_instance (snd x) = uorb_instance (Suc k)"
      by auto
    then show "get_instance (snd x) \<noteq> 0"
      by (simp add: uorb_instance_def)
  qed
qed

text \<open>Every yaw of the enumeration is a rotation of the plane.\<close>

lemma yaw_unit: "yaw_cos r * yaw_cos r + yaw_sin r * yaw_sin r = 1"
  by (cases r) simp_all

lemma yaw_inverse:
  "yaw_cos (inverse_rotation r) = yaw_cos r" "yaw_sin (inverse_rotation r) = - yaw_sin r"
  by (cases r; simp)+

lemma rotate_3f_inverse: "rotate_3f (inverse_rotation r) (rotate_3f r v) = v"
proof -
  obtain x y z where v: "v = (x, y, z)" by (cases v)
  let ?c = "yaw_cos r" and ?s = "yaw_sin r"
  have 1: "?c * (?c * x - ?s * y) + ?s * (?s * x + ?c * y) = (?c * ?c + ?s * ?s) * x"
    by (simp add: algebra_simps)
  have 2: "?c * (?s * x + ?c * y) - ?s * (?c * x - ?s * y) = (?c * ?c + ?s * ?s) * y"
    by (simp add: algebra_simps)
  show ?thesis
    using 1 2 by (simp add: v yaw_inverse yaw_unit)
qed

lemma rotate_3f_in_plane:
  "(yaw_cos r * x - yaw_sin r * y)\<^sup>2 + (yaw_sin r * x + yaw_cos r * y)\<^sup>2 = x\<^sup>2 + y\<^sup>2"
proof -
  let ?c = "yaw_cos r" and ?s = "yaw_sin r"
  have "(?c * x - ?s * y)\<^sup>2 + (?s * x + ?c * y)\<^sup>2 = (?c * ?c + ?s * ?s) * (x\<^sup>2 + y\<^sup>2)"
    by (simp add: power2_eq_square algebra_simps)
  then show ?thesis by (simp add: yaw_unit)
qed

subsection \<open>The example device\<close>

lemma example_received: "received_frame px4flow_headers (example_env m c i) = scenario_frame"
  by (simp add: received_frame_def px4flow_headers_def example_env_def recv_into_def scenario_frame_def)

lemma example_decode:
  "decode px4flow_headers scenario_frame =
     \<lparr> pixel_flow_x_integral = 5000, pixel_flow_y_integral = - 2500,
       gyro_x_rate_integral = 0, gyro_y_rate_integral = 0, gyro_z_rate_integral = 0,
       integration_timespan = 100000, ground_distance = 1500, qual = 200 \<rparr>"
  by (simp add: decode_def px4flow_headers_def scenario_frame_def u16_at_def u32_at_def byte_at_def)

lemma unit_received: "received_frame px4flow_headers unit_env = unit_frame"
  by (simp add: received_frame_def px4flow_headers_def unit_env_def recv_into_def unit_frame_def)

lemma unit_decode:
  "decode px4flow_headers unit_frame =
     \<lparr> pixel_flow_x_integral = 1, pixel_flow_y_integral = 0,
       gyro_x_rate_integral = 0, gyro_y_rate_integral = 0, gyro_z_rate_integral = 0,
       integration_timespan = 100000, ground_distance = 1, qual = 200 \<rparr>"
  by (simp add: decode_def px4flow_headers_def unit_frame_def u16_at_def u32_at_def byte_at_def)

lemma example_driver_simps:
  "sensor_rotation example_driver = ROTATION_NONE"
  "sonar_rotation example_driver = 25"
  "comms_errors example_driver = 0"
  "i2c_device_id example_driver = \<lparr> bus_type = 1, bus = 1, address = 0x42, devtype = 0 \<rparr>"
  by (simp_all add: example_driver_def PX4FLOW_new_def example_config_def)

lemma example_env_simps:
  "measure_status (example_env m c i) = m"
  "fst (transfer (example_env m c i) [0x16] 0) = m"
  "collect_status px4flow_headers (example_env m c i) = c"
  "get_instance (example_env m c i) = i"
  "hrt_absolute_time (example_env m c i) 0 = 1000000"
  "hrt_absolute_time (example_env m c i) 1 = 1000030"
  "hrt_absolute_time (example_env m c i) (Suc 0) = 1000030"
  "hrt_absolute_time (example_env m c i) 2 = 1000050"
  by (simp_all add: example_env_def PX4FLOW_REG_def hrt_absolute_time_def numeral_2_eq_2)

lemma example_headers_simps:
  "I2C_INTEGRAL_FRAME_SIZE px4flow_headers = 25"
  "DRV_DIST_DEVTYPE_PX4FLOW px4flow_headers = 0x50"
  "MAV_DISTANCE_SENSOR_ULTRASOUND px4flow_headers = 1"
  by (simp_all add: px4flow_headers_def)

lemma example_tick:
  assumes "\<not> c < 0"
  shows "snd (RunImpl px4flow_headers (example_env m c 0) example_driver) =
     \<lparr> bus_log = [([0x16], 0), ([], 25)],
       flow_pub =
         [\<lparr> timestamp = 1000030,
            device_id = \<lparr> bus_type = 1, bus = 1, address = 0x42, devtype = 0x50 \<rparr>,
            timestamp_sample = 1000000,
            pixel_flow = [0.5, - 0.25], delta_angle = [0, 0, 0],
            integration_timespan_us = 100000, quality = 200, delta_angle_available = True,
            max_flow_rate = 2.5, min_ground_distance = 11744051 / 16777216,
            max_ground_distance = 3 \<rparr>],
       distance_pub =
         [\<lparr> timestamp = 1000050,
            device_id = \<lparr> bus_type = 1, bus = 1, address = 0x42, devtype = 0x50 \<rparr>,
            min_distance = 5033165 / 16777216, max_distance = 5, current_distance = 1.5,
            variance = 0, signal_quality = - 1, sensor_type = 1, orientation = 25 \<rparr>],
       scheduled = [ScheduleDelayed 100000] \<rparr>"
proof -
  have ok: "\<not> collect_status px4flow_headers (example_env m c 0) < 0"
    using assms by (simp add: example_env_simps)
  show ?thesis
    unfolding RunImpl_success_effects [OF example_driver_simps(1) ok]
    by (simp add: Let_def example_driver_simps example_env_simps
      example_headers_simps example_received example_decode PX4FLOW_REG_def
      round_f32_exact_values PX4FLOW_CONVERSION_INTERVAL_DEFAULT_def)
qed

lemma example_tick_failed:
  assumes "c < 0"
  shows "RunImpl px4flow_headers (example_env m c i) example_driver =
     (example_driver\<lparr>comms_errors := (if m = 0 then 1 else 2)\<rparr>,
      \<lparr> bus_log = [([0x16], 0), ([], 25)], flow_pub = [], distance_pub = [],
        scheduled = [ScheduleNow] \<rparr>)"
proof -
  have bad: "collect_status px4flow_headers (example_env m c i) < 0"
    using assms by (simp add: example_env_simps)
  have cp: "example_driver\<lparr>collect_phase := False\<rparr> = example_driver"
    by (simp add: example_driver_def PX4FLOW_new_def)
  show ?thesis
    unfolding RunImpl_collect_failure [OF bad]
    by (simp add: example_driver_simps example_env_simps example_headers_simps
        PX4FLOW_REG_def OK_def example_driver_def PX4FLOW_new_def)
qed

subsection \<open>Failure of the bus\<close>

text \<open>
  Claim C1 as stated fails: with a failed write of \<^verbatim>\<open>measure\<close> the tick goes on to
  \<^verbatim>\<open>collect\<close>. When the read succeeds both samples are published; when the read fails
  as well the next tick is scheduled at once, not after the interval.
\<close>

theorem measure_failure_counterexample:
  "\<not> (OK \<noteq> measure_status (example_env (- 5) 0 0) \<longrightarrow>
        flow_pub (snd (RunImpl px4flow_headers (example_env (- 5) 0 0) example_driver)) = [] \<and>
        distance_pub (snd (RunImpl px4flow_headers (example_env (- 5) 0 0) example_driver)) = [] \<and>
        scheduled (snd (RunImpl px4flow_headers (example_env (- 5) 0 0) example_driver)) =
          [ScheduleDelayed PX4FLOW_CONVERSION_INTERVAL_DEFAULT])
   \<and>
   \<not> (OK \<noteq> measure_status (example_env (- 5) (- 5) 0) \<longrightarrow>
        flow_pub (snd (RunImpl px4flow_headers (example_env (- 5) (- 5) 0) example_driver)) = [] \<and>
        distance_pub (snd (RunImpl px4flow_headers (example_env (- 5) (- 5) 0) example_driver)) = [] \<and>
        scheduled (snd (RunImpl px4flow_headers (example_env (- 5) (- 5) 0) example_driver)) =
          [ScheduleDelayed PX4FLOW_CONVERSION_INTERVAL_DEFAULT])"
  by (simp add: example_tick example_tick_failed example_env_simps OK_def)

text \<open>
  Claim C1, amended. When the write of \<^verbatim>\<open>measure\<close> fails, the tick still performs the
  read of \<^verbatim>\<open>collect\<close>. If the read succeeds, one FlowSample is published (and one
  DistanceSample on the primary instance), the next tick is scheduled after the default
  interval and the error counter has grown by one; if the read fails too, nothing is
  published, the next tick is scheduled immediately and the error counter has grown by
  two.
\<close>

theorem measure_failure_tick:
  assumes "OK \<noteq> measure_status e"
  shows "let s' = fst (RunImpl H e s); w = snd (RunImpl H e s) in
           bus_log w = [([PX4FLOW_REG], 0), ([], I2C_INTEGRAL_FRAME_SIZE H)] \<and>
           (if collect_status H e < 0
            then flow_pub w = [] \<and> distance_pub w = [] \<and> scheduled w = [ScheduleNow] \<and>
                 comms_errors s' = comms_errors s + 2
            else length (flow_pub w) = 1 \<and>
                 length (distance_pub w) = (if get_instance e = 0 then 1 else 0) \<and>
                 scheduled w = [ScheduleDelayed PX4FLOW_CONVERSION_INTERVAL_DEFAULT] \<and>
                 comms_errors s' = comms_errors s + 1)"
proof (cases "collect_status H e < 0")
  case True
  then show ?thesis
    using assms by (simp add: RunImpl_collect_failure)
next
  case False
  then show ?thesis
    using assms by (simp add: RunImpl_collect_success)
qed

theorem measure_failure_tick_witness:
  "OK \<noteq> measure_status (example_env (- 5) 0 0) \<and>
   \<not> collect_status px4flow_headers (example_env (- 5) 0 0) < 0 \<and>
   length (flow_pub (snd (RunImpl px4flow_headers (example_env (- 5) 0 0) example_driver))) = 1 \<and>
   length (distance_pub (snd (RunImpl px4flow_headers (example_env (- 5) 0 0) example_driver))) = 1 \<and>
   scheduled (snd (RunImpl px4flow_headers (example_env (- 5) 0 0) example_driver)) =
     [ScheduleDelayed PX4FLOW_CONVERSION_INTERVAL_DEFAULT] \<and>
   comms_errors (fst (RunImpl px4flow_headers (example_env (- 5) 0 0) example_driver)) = 1 \<and>
   OK \<noteq> measure_status (example_env (- 5) (- 5) 0) \<and>
   collect_status px4flow_headers (example_env (- 5) (- 5) 0) < 0 \<and>
   flow_pub (snd (RunImpl px4flow_headers (example_env (- 5) (- 5) 0) example_driver)) = [] \<and>
   distance_pub (snd (RunImpl px4flow_headers (example_env (- 5) (- 5) 0) example_driver)) = [] \<and>
   scheduled (snd (RunImpl px4flow_headers (example_env (- 5) (- 5) 0) example_driver)) =
     [ScheduleNow] \<and>
   comms_errors (fst (RunImpl px4flow_headers (example_env (- 5) (- 5) 0) example_driver)) = 2"
proof -
  have m: "OK \<noteq> measure_status (example_env (- 5) c 0)" for c
    by (simp add: example_env_simps OK_def)
  have c1: "\<not> collect_status px4flow_headers (example_env (- 5) 0 0) < 0"
    by (simp add: example_env_simps)
  have c2: "collect_status px4flow_headers (example_env (- 5) (- 5) 0) < 0"
    by (simp add: example_env_simps)
  show ?thesis
    using measure_failure_tick [OF m, of px4flow_headers 0 example_driver]
      measure_failure_tick [OF m, of px4flow_headers "- 5" example_driver] m c1 c2
    by (simp add: Let_def example_driver_simps example_env_simps)
qed

text \<open>
  Claim C2. When the read of \<^verbatim>\<open>collect\<close> fails (a negative return code of the bus),
  \<^verbatim>\<open>collect\<close> changes nothing but the error counter, which it increments; the tick
  publishes no FlowSample and no DistanceSample, and it ends in \<^verbatim>\<open>start\<close>, whose
  \<^verbatim>\<open>ScheduleNow\<close> is the only scheduling call of the tick.
\<close>

theorem collect_failure_tick:
  assumes "collect_status H e < 0"
  shows "let s' = fst (RunImpl H e s); w = snd (RunImpl H e s) in
           fst (snd (collect H e (s, w0))) = s\<lparr>comms_errors := comms_errors s + 1\<rparr> \<and>
           comms_errors s' = comms_errors s + (if OK \<noteq> measure_status e then 2 else 1) \<and>
           flow_pub w = [] \<and> distance_pub w = [] \<and>
           start (snd (collect H e (snd (measure_px4flow e (s, no_effects))))) = RunImpl H e s \<and>
           scheduled w = [ScheduleNow]"
  using assms by (simp add: tick_defs)

theorem collect_failure_tick_witness:
  "collect_status px4flow_headers (example_env 0 (- 5) 0) < 0 \<and>
   comms_errors (fst (RunImpl px4flow_headers (example_env 0 (- 5) 0) example_driver)) = 1 \<and>
   flow_pub (snd (RunImpl px4flow_headers (example_env 0 (- 5) 0) example_driver)) = [] \<and>
   distance_pub (snd (RunImpl px4flow_headers (example_env 0 (- 5) 0) example_driver)) = [] \<and>
   scheduled (snd (RunImpl px4flow_headers (example_env 0 (- 5) 0) example_driver)) =
     [ScheduleNow]"
proof -
  have bad: "collect_status px4flow_headers (example_env 0 (- 5) 0) < 0"
    by (simp add: example_env_simps)
  show ?thesis
    using collect_failure_tick [OF bad, of example_driver no_effects] bad
    by (simp add: Let_def example_driver_simps example_env_simps OK_def example_tick_failed)
qed

subsection \<open>What a successful cycle publishes\<close>

text \<open>
  Claim C3. A successful \<^verbatim>\<open>collect\<close> publishes exactly one FlowSample, with the delta
  angle marked available, and a DistanceSample exactly when \<^verbatim>\<open>get_instance()\<close> is 0; so
  does the tick around it. In a system of one or more registered instances whose reads
  all succeed, exactly one instance publishes a DistanceSample in a tick of the system,
  and every instance publishes one FlowSample.
\<close>

theorem flow_and_distance_publication:
  "(\<not> collect_status H e < 0 \<longrightarrow>
      length (flow_pub (snd (snd (collect H e (s, no_effects))))) = 1 \<and>
      map delta_angle_available (flow_pub (snd (snd (collect H e (s, no_effects))))) = [True] \<and>
      length (distance_pub (snd (snd (collect H e (s, no_effects))))) =
        (if get_instance e = 0 then 1 else 0) \<and>
      length (flow_pub (snd (RunImpl H e s))) = 1 \<and>
      (distance_pub (snd (RunImpl H e s)) \<noteq> [] \<longleftrightarrow> get_instance e = 0)) \<and>
   (sys \<noteq> [] \<and> registered sys \<and> (\<forall>se \<in> set sys. \<not> collect_status H (snd se) < 0) \<longrightarrow>
      length (filter (\<lambda>w. distance_pub w \<noteq> []) (tick_all H sys)) = 1 \<and>
      map (length \<circ> flow_pub) (tick_all H sys) = replicate (length sys) 1)"
proof -
  have one: "length (flow_pub (snd (snd (collect H e (s, no_effects))))) = 1 \<and>
      map delta_angle_available (flow_pub (snd (snd (collect H e (s, no_effects))))) = [True] \<and>
      length (distance_pub (snd (snd (collect H e (s, no_effects))))) =
        (if get_instance e = 0 then 1 else 0)"
    if "\<not> collect_status H e < 0"
    using that by (simp add: tick_defs split: prod.splits)
  have tick: "length (flow_pub (snd (RunImpl H e s))) = 1 \<and>
      (distance_pub (snd (RunImpl H e s)) \<noteq> [] \<longleftrightarrow> get_instance e = 0)"
    if "\<not> collect_status H e < 0" for e s
    using RunImpl_collect_success(4,5) [OF that, of s]
    by (cases "distance_pub (snd (RunImpl H e s))") (simp_all split: if_splits)
  have all: "length (filter (\<lambda>w. distance_pub w \<noteq> []) (tick_all H sys)) = 1 \<and>
      map (length \<circ> flow_pub) (tick_all H sys) = replicate (length sys) 1"
    if ne: "sys \<noteq> []" and reg: "registered sys"
      and ok: "\<forall>se \<in> set sys. \<not> collect_status H (snd se) < 0"
  proof -
    obtain se rest where sys: "sys = se # rest"
      using ne by (cases sys) auto
    have first: "get_instance (snd se) = 0"
      and others: "\<forall>x \<in> set rest. get_instance (snd x) \<noteq> 0"
      using registered_Cons [of se rest] reg by (simp_all add: sys)
    have dist: "distance_pub (snd (RunImpl H (snd x) (fst x))) \<noteq> [] \<longleftrightarrow> get_instance (snd x) = 0"
      if "x \<in> set sys" for x
      using tick [of "snd x" "fst x"] ok that by blast
    have flow: "length (flow_pub (snd (RunImpl H (snd x) (fst x)))) = 1" if "x \<in> set sys" for x
      using tick [of "snd x" "fst x"] ok that by blast
    have "filter (\<lambda>w. distance_pub w \<noteq> []) (tick_all H rest) = []"
      using others dist by (auto simp add: tick_all_def sys filter_empty_conv)
    moreover have "distance_pub (snd (RunImpl H (snd se) (fst se))) \<noteq> []"
      using dist [of se] first by (simp add: sys)
    ultimately have "length (filter (\<lambda>w. distance_pub w \<noteq> []) (tick_all H sys)) = 1"
      by (simp add: tick_all_def sys)
    moreover have "map (length \<circ> flow_pub) (tick_all H sys) = replicate (length sys) 1"
      using flow by (simp add: tick_all_def map_replicate_const [symmetric] del: replicate.simps)
    ultimately show ?thesis by simp
  qed
  from one tick all show ?thesis by blast
qed

theorem flow_and_distance_publication_witness:
  "\<not> collect_status px4flow_headers (example_env 0 0 0) < 0 \<and>
   example_system \<noteq> [] \<and> registered example_system \<and>
   (\<not> collect_status px4flow_headers (example_env 0 0 0) < 0 \<and>
    \<not> collect_status px4flow_headers (example_env 0 0 1) < 0 \<and>
    \<not> collect_status px4flow_headers (example_env (- 5) 0 2) < 0) \<and>
   length (filter (\<lambda>w. distance_pub w \<noteq> []) (tick_all px4flow_headers example_system)) = 1 \<and>
   map (length \<circ> flow_pub) (tick_all px4flow_headers example_system) = [1, 1, 1] \<and>
   map (length \<circ> distance_pub) (tick_all px4flow_headers example_system) = [1, 0, 0] \<and>
   length (flow_pub (snd (RunImpl px4flow_headers (example_env 0 0 0) example_driver))) = 1 \<and>
   distance_pub (snd (RunImpl px4flow_headers (example_env 0 0 0) example_driver)) \<noteq> []"
proof -
  have ok: "\<not> collect_status px4flow_headers (example_env m 0 i) < 0" for m i
    by (simp add: example_env_simps)
  have ne: "example_system \<noteq> []"
    by (simp add: example_system_def)
  have reg: "registered example_system"
    by (simp add: registered_def example_system_def uorb_instance_def example_env_simps
        upt_conv_Cons)
  have all: "\<forall>se \<in> set example_system. \<not> collect_status px4flow_headers (snd se) < 0"
    by (simp add: example_system_def example_env_simps)
  have lens: "map (length \<circ> distance_pub) (tick_all px4flow_headers example_system) = [1, 0, 0]"
    by (simp add: tick_all_def example_system_def RunImpl_collect_success(5) [OF ok]
        example_env_simps)
  note T = flow_and_distance_publication
        [where H = px4flow_headers and e = "example_env 0 0 0" and s = example_driver
           and sys = example_system]
  have sys: "length (filter (\<lambda>w. distance_pub w \<noteq> []) (tick_all px4flow_headers example_system)) = 1 \<and>
      map (length \<circ> flow_pub) (tick_all px4flow_headers example_system) =
        replicate (length example_system) 1"
    using T ne reg all by blast
  have one: "length (flow_pub (snd (RunImpl px4flow_headers (example_env 0 0 0) example_driver))) = 1 \<and>
      (distance_pub (snd (RunImpl px4flow_headers (example_env 0 0 0) example_driver)) \<noteq> [] \<longleftrightarrow>
       get_instance (example_env 0 0 0) = 0)"
    using T ok [of 0 0] by blast
  have len: "replicate (length example_system) (1::nat) = [1, 1, 1]"
    by (simp add: example_system_def)
  show ?thesis
    using sys one ok ne reg lens unfolding len by (simp add: example_env_simps)
qed

text \<open>
  Claim C4 as stated fails: for the frame whose flow integral is 1 the published flow is
  the binary32 quotient 13743895 / 137438953472, not 1 / 10000.
\<close>

theorem flow_sample_scaling_counterexample:
  "pixel_flow_x_integral
     (decode px4flow_headers (received_frame px4flow_headers unit_env)) = 1 \<and>
   pixel_flow_y_integral
     (decode px4flow_headers (received_frame px4flow_headers unit_env)) = 0 \<and>
   map pixel_flow (flow_pub (snd (RunImpl px4flow_headers unit_env example_driver))) =
     [[13743895 / 137438953472, 0]] \<and>
   \<not> (map pixel_flow (flow_pub (snd (RunImpl px4flow_headers unit_env example_driver))) =
        [[real_of_int (sint (pixel_flow_x_integral
            (decode px4flow_headers (received_frame px4flow_headers unit_env)))) / 10000,
          real_of_int (sint (pixel_flow_y_integral
            (decode px4flow_headers (received_frame px4flow_headers unit_env)))) / 10000]])"
proof -
  have ok: "\<not> collect_status px4flow_headers unit_env < 0"
    by (simp add: unit_env_def)
  show ?thesis
    unfolding RunImpl_success_effects [OF example_driver_simps(1) ok]
    by (simp add: Let_def unit_received unit_decode round_f32_values)
qed

text \<open>
  Claim C4, amended. Whenever the read of \<^verbatim>\<open>collect\<close> succeeds in a driver whose vector
  rotation is the one the constructor sets, exactly one FlowSample is published, and in it
  every signed 16-bit integral \<open>n\<close> of the frame just received (flow x and y, gyro x, y
  and z) appears as the binary32 quotient of \<open>n\<close> by 10000: the binary32 value nearest to
  \<open>n / 10000\<close>, which differs from it by at most the fraction \<open>1 / 2 ^ 24\<close> of its
  magnitude and is \<open>n / 10000\<close> itself when 625 divides \<open>n\<close>. The integration timespan and
  the quality are those of the frame, and the quality lies in 0..255. For the frame with
  flow 5000 and -2500, no rotation rate, timespan 100000 and quality 200 the sample has
  the flow [0.5, -0.25], the delta angle [0, 0, 0], the timespan 100000 and the quality
  200.
\<close>

theorem flow_sample_scaling:
  assumes "sensor_rotation s = ROTATION_NONE" and "\<not> collect_status H e < 0"
  shows "let fi = decode H (received_frame H e); w = snd (RunImpl H e s) in
           frame_integral (fst (RunImpl H e s)) = received_frame H e \<and>
           map pixel_flow (flow_pub w) =
             [[round_f32 (real_of_int (sint (pixel_flow_x_integral fi)) / 10000),
               round_f32 (real_of_int (sint (pixel_flow_y_integral fi)) / 10000)]] \<and>
           map delta_angle (flow_pub w) =
             [[round_f32 (real_of_int (sint (gyro_x_rate_integral fi)) / 10000),
               round_f32 (real_of_int (sint (gyro_y_rate_integral fi)) / 10000),
               round_f32 (real_of_int (sint (gyro_z_rate_integral fi)) / 10000)]] \<and>
           \<bar>round_f32 (real_of_int (sint (n :: 16 word)) / 10000) - real_of_int (sint n) / 10000\<bar>
             \<le> \<bar>real_of_int (sint n) / 10000\<bar> / 2 ^ 24 \<and>
           (625 dvd sint n \<longrightarrow>
              round_f32 (real_of_int (sint n) / 10000) = real_of_int (sint n) / 10000) \<and>
           map integration_timespan_us (flow_pub w) = [integration_timespan fi] \<and>
           map quality (flow_pub w) = [qual fi] \<and>
           unat (qual fi) \<le> 255 \<and>
           (pixel_flow_x_integral fi = 5000 \<and> pixel_flow_y_integral fi = - 2500 \<and>
            gyro_x_rate_integral fi = 0 \<and> gyro_y_rate_integral fi = 0 \<and>
            gyro_z_rate_integral fi = 0 \<and> integration_timespan fi = 100000 \<and> qual fi = 200 \<longrightarrow>
              map pixel_flow (flow_pub w) = [[0.5, - 0.25]] \<and>
              map delta_angle (flow_pub w) = [[0, 0, 0]] \<and>
              map integration_timespan_us (flow_pub w) = [100000] \<and>
              map quality (flow_pub w) = [200])"
proof -
  have err: "\<bar>round_f32 (real_of_int (sint n) / 10000) - real_of_int (sint n) / 10000\<bar>
      \<le> \<bar>real_of_int (sint n) / 10000\<bar> / 2 ^ 24"
    using round_f32_quotient_error [of 10000 "sint n"] by simp
  have exact: "round_f32 (real_of_int (sint n) / 10000) = real_of_int (sint n) / 10000"
    if "625 dvd sint n"
  proof -
    from that obtain m where m: "sint n = 625 * m" ..
    have "\<bar>m\<bar> \<le> \<bar>sint n\<bar>" by (simp add: m abs_mult)
    then have small: "\<bar>m\<bar> < 2 ^ 24"
      using sint16_small [of n] by simp
    have "real_of_int 625 / 10000 = 2 powi (- 4)"
      by (simp add: power_int_minus)
    from round_f32_quotient_exact [OF m small this] show ?thesis by simp
  qed
  show ?thesis
    unfolding Let_def RunImpl_success_effects [OF assms]
    using err exact RunImpl_collect_success(1) [OF assms(2), of s]
    by (simp add: Let_def byte_range round_f32_exact_values)
qed

theorem flow_sample_scaling_witness:
  "sensor_rotation example_driver = ROTATION_NONE \<and>
   \<not> collect_status px4flow_headers (example_env 0 0 0) < 0 \<and>
   decode px4flow_headers (received_frame px4flow_headers (example_env 0 0 0)) =
     \<lparr> pixel_flow_x_integral = 5000, pixel_flow_y_integral = - 2500,
       gyro_x_rate_integral = 0, gyro_y_rate_integral = 0, gyro_z_rate_integral = 0,
       integration_timespan = 100000, ground_distance = 1500, qual = 200 \<rparr> \<and>
   625 dvd sint (5000 :: 16 word) \<and>
   round_f32 (real_of_int (sint (5000 :: 16 word)) / 10000) = 1 / 2 \<and>
   map pixel_flow (flow_pub (snd (RunImpl px4flow_headers (example_env 0 0 0) example_driver))) =
     [[0.5, - 0.25]] \<and>
   map delta_angle (flow_pub (snd (RunImpl px4flow_headers (example_env 0 0 0) example_driver))) =
     [[0, 0, 0]] \<and>
   map integration_timespan_us
     (flow_pub (snd (RunImpl px4flow_headers (example_env 0 0 0) example_driver))) = [100000] \<and>
   map quality (flow_pub (snd (RunImpl px4flow_headers (example_env 0 0 0) example_driver))) = [200]"
proof -
  have rot: "sensor_rotation example_driver = ROTATION_NONE"
    by (simp add: example_driver_def PX4FLOW_new_def)
  have ok: "\<not> collect_status px4flow_headers (example_env 0 0 0) < 0"
    by (simp add: example_env_def)
  have dec: "decode px4flow_headers (received_frame px4flow_headers (example_env 0 0 0)) =
     \<lparr> pixel_flow_x_integral = 5000, pixel_flow_y_integral = - 2500,
       gyro_x_rate_integral = 0, gyro_y_rate_integral = 0, gyro_z_rate_integral = 0,
       integration_timespan = 100000, ground_distance = 1500, qual = 200 \<rparr>"
    by (simp only: example_received example_decode)
  have dvd: "625 dvd sint (5000 :: 16 word)"
    by simp
  show ?thesis
    using flow_sample_scaling [OF rot ok, of 5000] rot ok dec dvd
    by (simp add: Let_def round_f32_exact_values)
qed

text \<open>
  Claim C5 as stated fails: for a ground distance of 1 the published distance is the
  binary32 quotient 8589935 / 8589934592, not 1 / 1000, and the lower range bound is the
  binary32 value of \<^verbatim>\<open>0.3f\<close>, 5033165 / 16777216, not 0.3.
\<close>

theorem distance_sample_fields_counterexample:
  "ground_distance (decode px4flow_headers (received_frame px4flow_headers unit_env)) = 1 \<and>
   map current_distance
     (distance_pub (snd (RunImpl px4flow_headers unit_env example_driver))) =
     [8589935 / 8589934592] \<and>
   \<not> (map current_distance
        (distance_pub (snd (RunImpl px4flow_headers unit_env example_driver))) =
        [real_of_int (sint (ground_distance
           (decode px4flow_headers (received_frame px4flow_headers unit_env)))) / 1000]) \<and>
   map min_distance (distance_pub (snd (RunImpl px4flow_headers unit_env example_driver))) =
     [5033165 / 16777216] \<and>
   \<not> (map min_distance (distance_pub (snd (RunImpl px4flow_headers unit_env example_driver))) =
        [0.3])"
proof -
  have ok: "\<not> collect_status px4flow_headers unit_env < 0"
    by (simp add: unit_env_def)
  have inst: "get_instance unit_env = 0"
    by (simp add: unit_env_def)
  show ?thesis
    unfolding RunImpl_success_effects [OF example_driver_simps(1) ok]
    by (simp add: Let_def inst unit_received unit_decode round_f32_values)
qed

text \<open>
  Claim C5, amended. Every DistanceSample a tick publishes has as current distance the
  binary32 quotient of the signed 16-bit ground distance of the frame just received by
  1000: the binary32 value nearest to \<open>n / 1000\<close>, which differs from it by at most the
  fraction \<open>1 / 2 ^ 24\<close> of its magnitude and is \<open>n / 1000\<close> itself when 125 divides \<open>n\<close>
  (1.5 for 1500). Its lower range bound is the binary32 value of \<^verbatim>\<open>0.3f\<close>, which is
  5033165 / 16777216 and within the same fraction of 0.3; its upper range bound is 5.0.
  Its orientation is the driver's sonar rotation, which is the rotation code of the
  configuration and which no tick changes, and its timestamp is the driver's own third
  reading of the clock in that tick.
\<close>

theorem distance_sample_fields:
  "(\<forall>d \<in> set (distance_pub (snd (RunImpl H e s))).
      current_distance d =
        round_f32 (real_of_int (sint (ground_distance (decode H (received_frame H e)))) / 1000) \<and>
      (ground_distance (decode H (received_frame H e)) = 1500 \<longrightarrow> current_distance d = 1.5) \<and>
      min_distance d = PX4FLOW_MIN_DISTANCE \<and>
      max_distance d = PX4FLOW_MAX_DISTANCE \<and> max_distance d = 5.0 \<and>
      orientation d = sonar_rotation s \<and>
      timestamp d = hrt_absolute_time e 2) \<and>
   \<bar>round_f32 (real_of_int (sint (n :: 16 word)) / 1000) - real_of_int (sint n) / 1000\<bar>
     \<le> \<bar>real_of_int (sint n) / 1000\<bar> / 2 ^ 24 \<and>
   (125 dvd sint n \<longrightarrow>
      round_f32 (real_of_int (sint n) / 1000) = real_of_int (sint n) / 1000) \<and>
   PX4FLOW_MIN_DISTANCE = 5033165 / 16777216 \<and>
   \<bar>PX4FLOW_MIN_DISTANCE - 0.3\<bar> \<le> 0.3 / 2 ^ 24 \<and>
   sonar_rotation (PX4FLOW_new H config) = rotation config \<and>
   sonar_rotation (fst (RunImpl H e s)) = sonar_rotation s"
proof -
  have err: "\<bar>round_f32 (real_of_int (sint n) / 1000) - real_of_int (sint n) / 1000\<bar>
      \<le> \<bar>real_of_int (sint n) / 1000\<bar> / 2 ^ 24"
    using round_f32_quotient_error [of 1000 "sint n"] by simp
  have exact: "round_f32 (real_of_int (sint n) / 1000) = real_of_int (sint n) / 1000"
    if "125 dvd sint n"
  proof -
    from that obtain m where m: "sint n = 125 * m" ..
    have "\<bar>m\<bar> \<le> \<bar>sint n\<bar>" by (simp add: m abs_mult)
    then have small: "\<bar>m\<bar> < 2 ^ 24"
      using sint16_small [of n] by simp
    have "real_of_int 125 / 1000 = 2 powi (- 3)"
      by (simp add: power_int_minus)
    from round_f32_quotient_exact [OF m small this] show ?thesis by simp
  qed
  have lower: "PX4FLOW_MIN_DISTANCE = 5033165 / 16777216"
    by (simp add: PX4FLOW_MIN_DISTANCE_def round_f32_three_tenths)
  have near: "\<bar>PX4FLOW_MIN_DISTANCE - 0.3\<bar> \<le> 0.3 / 2 ^ 24"
    unfolding lower by simp
  have samples: "\<forall>d \<in> set (distance_pub (snd (RunImpl H e s))).
      current_distance d =
        round_f32 (real_of_int (sint (ground_distance (decode H (received_frame H e)))) / 1000) \<and>
      (ground_distance (decode H (received_frame H e)) = 1500 \<longrightarrow> current_distance d = 1.5) \<and>
      min_distance d = PX4FLOW_MIN_DISTANCE \<and>
      max_distance d = PX4FLOW_MAX_DISTANCE \<and> max_distance d = 5.0 \<and>
      orientation d = sonar_rotation s \<and>
      timestamp d = hrt_absolute_time e 2"
    by (simp add: tick_defs f32_div_def f32_of_int_sint16 round_f32_exact_values
        PX4FLOW_MAX_DISTANCE_def split: prod.splits)
  have rot: "sonar_rotation (PX4FLOW_new H config) = rotation config"
    by (simp add: PX4FLOW_new_def)
  from samples err exact lower near rot RunImpl_sonar_rotation [of H e s]
  show ?thesis by blast
qed

theorem distance_sample_fields_witness:
  "hd (distance_pub (snd (RunImpl px4flow_headers (example_env 0 0 0) example_driver)))
     \<in> set (distance_pub (snd (RunImpl px4flow_headers (example_env 0 0 0) example_driver))) \<and>
   ground_distance (decode px4flow_headers (received_frame px4flow_headers (example_env 0 0 0)))
     = 1500 \<and>
   125 dvd sint (1500 :: 16 word) \<and>
   round_f32 (real_of_int (sint (1500 :: 16 word)) / 1000) = 3 / 2 \<and>
   current_distance
     (hd (distance_pub (snd (RunImpl px4flow_headers (example_env 0 0 0) example_driver)))) = 1.5 \<and>
   orientation
     (hd (distance_pub (snd (RunImpl px4flow_headers (example_env 0 0 0) example_driver)))) = 25 \<and>
   rotation (example_config 25) = 25"
proof -
  have mem: "hd (distance_pub (snd (RunImpl px4flow_headers (example_env 0 0 0) example_driver)))
     \<in> set (distance_pub (snd (RunImpl px4flow_headers (example_env 0 0 0) example_driver)))"
    by (simp add: example_tick)
  have gd: "ground_distance
      (decode px4flow_headers (received_frame px4flow_headers (example_env 0 0 0))) = 1500"
    by (simp add: example_received example_decode)
  have dvd: "125 dvd sint (1500 :: 16 word)"
    by simp
  note T = distance_sample_fields
      [where H = px4flow_headers and e = "example_env 0 0 0" and s = example_driver
         and n = 1500]
  have a: "current_distance
     (hd (distance_pub (snd (RunImpl px4flow_headers (example_env 0 0 0) example_driver)))) = 1.5 \<and>
     orientation
     (hd (distance_pub (snd (RunImpl px4flow_headers (example_env 0 0 0) example_driver)))) =
     sonar_rotation example_driver"
    using T [THEN conjunct1, THEN bspec, OF mem] gd by blast
  have b: "round_f32 (real_of_int (sint (1500 :: 16 word)) / 1000) =
      real_of_int (sint (1500 :: 16 word)) / 1000"
    using T dvd by blast
  show ?thesis
    using mem gd dvd a b by (simp add: example_driver_simps example_config_def)
qed

subsection \<open>The rotation code of the command line\<close>

text \<open>
  Claim C6. The rotation code of the configuration reaches the driver only as its sonar
  rotation; the vector rotation is \<^verbatim>\<open>ROTATION_NONE\<close> whatever the code is. Two runs over
  the same environments from drivers that differ only in the code publish the same
  FlowSamples (so the same flow and delta-angle vectors) and make the same scheduling
  calls, and their DistanceSamples differ only in the orientation, which is the code.
\<close>

theorem rotation_code_noninterference:
  "PX4FLOW_new H (config\<lparr>rotation := r\<rparr>) = (PX4FLOW_new H config)\<lparr>sonar_rotation := r\<rparr> \<and>
   sensor_rotation (PX4FLOW_new H config) = ROTATION_NONE \<and>
   sensor_rotation (PX4FLOW_new H (config\<lparr>rotation := r\<rparr>)) = ROTATION_NONE \<and>
   map flow_pub (fst (run H es (PX4FLOW_new H (config\<lparr>rotation := r\<rparr>)))) =
     map flow_pub (fst (run H es (PX4FLOW_new H config))) \<and>
   map flow_pub (fst (run H es (s\<lparr>sonar_rotation := r\<rparr>))) = map flow_pub (fst (run H es s)) \<and>
   map scheduled (fst (run H es (s\<lparr>sonar_rotation := r\<rparr>))) = map scheduled (fst (run H es s)) \<and>
   map distance_pub (fst (run H es (s\<lparr>sonar_rotation := r\<rparr>))) =
     map (map (\<lambda>d. d\<lparr>orientation := r\<rparr>) \<circ> distance_pub) (fst (run H es s)) \<and>
   map (map orientation \<circ> distance_pub) (fst (run H es (PX4FLOW_new H config))) =
     map (map (\<lambda>d. rotation config) \<circ> distance_pub) (fst (run H es (PX4FLOW_new H config)))"
proof -
  have new: "sonar_rotation (PX4FLOW_new H config) = rotation config"
    by (simp add: PX4FLOW_new_def)
  have none: "sensor_rotation (PX4FLOW_new H c) = ROTATION_NONE" for c
    by (simp add: PX4FLOW_new_def)
  have upd: "PX4FLOW_new H (config\<lparr>rotation := r\<rparr>) =
      (PX4FLOW_new H config)\<lparr>sonar_rotation := r\<rparr>"
    by (simp add: PX4FLOW_new_def)
  show ?thesis
    using run_orientation [of H es "PX4FLOW_new H config"]
    by (simp add: upd none new run_retag comp_def)
qed

theorem rotation_code_noninterference_witness:
  "map flow_pub (fst (run px4flow_headers [example_env 0 0 0]
      (example_driver\<lparr>sonar_rotation := 0\<rparr>))) =
   map flow_pub (fst (run px4flow_headers [example_env 0 0 0] example_driver)) \<and>
   map (map pixel_flow \<circ> flow_pub)
     (fst (run px4flow_headers [example_env 0 0 0] example_driver)) = [[[0.5, - 0.25]]] \<and>
   map (map orientation \<circ> distance_pub)
     (fst (run px4flow_headers [example_env 0 0 0] example_driver)) = [[25]] \<and>
   map (map orientation \<circ> distance_pub)
     (fst (run px4flow_headers [example_env 0 0 0]
        (example_driver\<lparr>sonar_rotation := 0\<rparr>))) = [[0]]"
proof -
  note T = rotation_code_noninterference
      [where H = px4flow_headers and config = "example_config 25" and r = 0
         and es = "[example_env 0 0 0]" and s = example_driver]
  have ok: "\<not> (0::int) < 0" by simp
  have a: "map flow_pub (fst (run px4flow_headers [example_env 0 0 0]
      (example_driver\<lparr>sonar_rotation := 0\<rparr>))) =
      map flow_pub (fst (run px4flow_headers [example_env 0 0 0] example_driver))"
    using T by blast
  have b: "map distance_pub (fst (run px4flow_headers [example_env 0 0 0]
      (example_driver\<lparr>sonar_rotation := 0\<rparr>))) =
      map (map (\<lambda>d. d\<lparr>orientation := 0\<rparr>) \<circ> distance_pub)
        (fst (run px4flow_headers [example_env 0 0 0] example_driver))"
    using T by blast
  have c: "map (map orientation \<circ> distance_pub)
     (fst (run px4flow_headers [example_env 0 0 0]
        (example_driver\<lparr>sonar_rotation := 0\<rparr>))) =
     map (map orientation) (map distance_pub (fst (run px4flow_headers [example_env 0 0 0]
        (example_driver\<lparr>sonar_rotation := 0\<rparr>))))"
    by simp
  show ?thesis
    unfolding c unfolding b a unfolding run_Cons_fst
    by (simp add: example_tick [OF ok])
qed

subsection \<open>Reading the frame\<close>

text \<open>
  Claim C7. The register is a constant, \<^verbatim>\<open>0x16\<close>, so every \<^verbatim>\<open>collect\<close> runs the
  integral-only mode: it requests exactly one read, of the size of the integral frame,
  and leaves \<^verbatim>\<open>_frame\<close> alone; with the register \<^verbatim>\<open>0x00\<close> it would request exactly one
  read of both frames. After a successful read \<^verbatim>\<open>collect\<close> returns \<^verbatim>\<open>PX4_OK\<close> whatever
  the bytes are, and the whole of \<^verbatim>\<open>_frame_integral\<close> is the bytes received: it does not
  depend on the driver's earlier state, and for a reply of the expected size it is the
  reply itself. In the full mode the reply is split into the two frames.
\<close>

theorem decode_total_deterministic:
  "collect = collect_reg PX4FLOW_REG \<and> PX4FLOW_REG = 0x16 \<and>
   bus_log (snd (snd (collect_reg 0x00 H e (s, no_effects)))) =
     [([], I2C_FRAME_SIZE H + I2C_INTEGRAL_FRAME_SIZE H)] \<and>
   bus_log (snd (snd (collect_reg 0x16 H e (s, no_effects)))) =
     [([], I2C_INTEGRAL_FRAME_SIZE H)] \<and>
   bus_log (snd (snd (collect H e (s, no_effects)))) = [([], I2C_INTEGRAL_FRAME_SIZE H)] \<and>
   frame (fst (snd (collect H e (s, w)))) = frame s \<and>
   (\<not> collect_status H e < 0 \<longrightarrow>
      fst (collect H e (s, w)) = PX4_OK \<and>
      frame_integral (fst (snd (collect H e (s, w)))) = received_frame H e \<and>
      frame_integral (fst (snd (collect H e (s, w)))) =
        frame_integral (fst (snd (collect H e (t, w')))) \<and>
      (length (snd (transfer e [] (I2C_INTEGRAL_FRAME_SIZE H))) = I2C_INTEGRAL_FRAME_SIZE H \<longrightarrow>
         frame_integral (fst (snd (collect H e (s, w)))) =
           snd (transfer e [] (I2C_INTEGRAL_FRAME_SIZE H)))) \<and>
   (\<not> fst (transfer e [] (I2C_FRAME_SIZE H + I2C_INTEGRAL_FRAME_SIZE H)) < 0 \<and>
    length (snd (transfer e [] (I2C_FRAME_SIZE H + I2C_INTEGRAL_FRAME_SIZE H))) =
      I2C_FRAME_SIZE H + I2C_INTEGRAL_FRAME_SIZE H \<longrightarrow>
      fst (collect_reg 0x00 H e (s, w)) = PX4_OK \<and>
      frame (fst (snd (collect_reg 0x00 H e (s, w)))) =
        take (I2C_FRAME_SIZE H) (snd (transfer e [] (I2C_FRAME_SIZE H + I2C_INTEGRAL_FRAME_SIZE H))) \<and>
      frame_integral (fst (snd (collect_reg 0x00 H e (s, w)))) =
        drop (I2C_FRAME_SIZE H) (snd (transfer e [] (I2C_FRAME_SIZE H + I2C_INTEGRAL_FRAME_SIZE H))))"
proof -
  have mode: "collect = collect_reg PX4FLOW_REG \<and> PX4FLOW_REG = 0x16"
    by (simp add: collect_def PX4FLOW_REG_def)
  have log0: "bus_log (snd (snd (collect_reg 0x00 H e (s, no_effects)))) =
     [([], I2C_FRAME_SIZE H + I2C_INTEGRAL_FRAME_SIZE H)]"
    by (simp add: collect_reg_def Let_def no_effects_def split: prod.splits)
  have log1: "bus_log (snd (snd (collect_reg 0x16 H e (s, no_effects)))) =
     [([], I2C_INTEGRAL_FRAME_SIZE H)]"
    by (simp add: collect_reg_def Let_def no_effects_def split: prod.splits)
  have log: "bus_log (snd (snd (collect H e (s, no_effects)))) = [([], I2C_INTEGRAL_FRAME_SIZE H)]"
    using log1 by (simp add: collect_def PX4FLOW_REG_def)
  have fr: "frame (fst (snd (collect H e (s, w)))) = frame s"
    by (simp add: tick_defs split: prod.splits)
  have ok: "fst (collect H e (s, w)) = PX4_OK \<and>
      frame_integral (fst (snd (collect H e (s, w)))) = received_frame H e \<and>
      frame_integral (fst (snd (collect H e (s, w)))) =
        frame_integral (fst (snd (collect H e (t, w'))))"
    if "\<not> collect_status H e < 0"
    using that by (simp add: tick_defs split: prod.splits)
  have exact: "frame_integral (fst (snd (collect H e (s, w)))) =
           snd (transfer e [] (I2C_INTEGRAL_FRAME_SIZE H))"
    if "\<not> collect_status H e < 0"
      and "length (snd (transfer e [] (I2C_INTEGRAL_FRAME_SIZE H))) = I2C_INTEGRAL_FRAME_SIZE H"
    using ok [OF that(1)] that(2) by (simp add: received_frame_def take_recv_into)
  have full: "fst (collect_reg 0x00 H e (s, w)) = PX4_OK \<and>
      frame (fst (snd (collect_reg 0x00 H e (s, w)))) =
        take (I2C_FRAME_SIZE H) (snd (transfer e [] (I2C_FRAME_SIZE H + I2C_INTEGRAL_FRAME_SIZE H))) \<and>
      frame_integral (fst (snd (collect_reg 0x00 H e (s, w)))) =
        drop (I2C_FRAME_SIZE H) (snd (transfer e [] (I2C_FRAME_SIZE H + I2C_INTEGRAL_FRAME_SIZE H)))"
    if "\<not> fst (transfer e [] (I2C_FRAME_SIZE H + I2C_INTEGRAL_FRAME_SIZE H)) < 0"
      and "length (snd (transfer e [] (I2C_FRAME_SIZE H + I2C_INTEGRAL_FRAME_SIZE H))) =
      I2C_FRAME_SIZE H + I2C_INTEGRAL_FRAME_SIZE H"
  proof -
    have "recv_into (replicate (I2C_FRAME_SIZE H + I2C_INTEGRAL_FRAME_SIZE H) 0)
            (I2C_FRAME_SIZE H + I2C_INTEGRAL_FRAME_SIZE H)
            (snd (transfer e [] (I2C_FRAME_SIZE H + I2C_INTEGRAL_FRAME_SIZE H))) =
          snd (transfer e [] (I2C_FRAME_SIZE H + I2C_INTEGRAL_FRAME_SIZE H))"
      using that(2) by (simp add: recv_into_def Let_def)
    then show ?thesis
      using that by (simp add: collect_reg_def Let_def split: prod.splits)
  qed
  from mode log0 log1 log fr ok exact full show ?thesis
    by blast
qed

theorem decode_total_deterministic_witness:
  "\<not> collect_status px4flow_headers (example_env 0 0 0) < 0 \<and>
   length (snd (transfer (example_env 0 0 0) [] (I2C_INTEGRAL_FRAME_SIZE px4flow_headers))) =
     I2C_INTEGRAL_FRAME_SIZE px4flow_headers \<and>
   fst (collect px4flow_headers (example_env 0 0 0) (example_driver, no_effects)) = PX4_OK \<and>
   frame_integral (fst (snd (collect px4flow_headers (example_env 0 0 0)
       (example_driver, no_effects)))) = scenario_frame \<and>
   \<not> fst (transfer full_frame_env []
          (I2C_FRAME_SIZE px4flow_headers + I2C_INTEGRAL_FRAME_SIZE px4flow_headers)) < 0 \<and>
   length (snd (transfer full_frame_env []
          (I2C_FRAME_SIZE px4flow_headers + I2C_INTEGRAL_FRAME_SIZE px4flow_headers))) =
     I2C_FRAME_SIZE px4flow_headers + I2C_INTEGRAL_FRAME_SIZE px4flow_headers \<and>
   fst (collect_reg 0x00 px4flow_headers full_frame_env (example_driver, no_effects)) = PX4_OK \<and>
   frame (fst (snd (collect_reg 0x00 px4flow_headers full_frame_env
       (example_driver, no_effects)))) = replicate 22 0xAA \<and>
   frame_integral (fst (snd (collect_reg 0x00 px4flow_headers full_frame_env
       (example_driver, no_effects)))) = scenario_frame"
proof -
  have ok: "\<not> collect_status px4flow_headers (example_env 0 0 0) < 0"
    by (simp add: example_env_simps)
  have len: "length (snd (transfer (example_env 0 0 0) []
       (I2C_INTEGRAL_FRAME_SIZE px4flow_headers))) = I2C_INTEGRAL_FRAME_SIZE px4flow_headers"
    by (simp add: example_env_def px4flow_headers_def scenario_frame_def)
  have rx: "snd (transfer (example_env 0 0 0) [] (I2C_INTEGRAL_FRAME_SIZE px4flow_headers)) =
      scenario_frame"
    by (simp add: example_env_def px4flow_headers_def scenario_frame_def)
  have fok: "\<not> fst (transfer full_frame_env []
          (I2C_FRAME_SIZE px4flow_headers + I2C_INTEGRAL_FRAME_SIZE px4flow_headers)) < 0"
    by (simp add: full_frame_env_def)
  have frx: "snd (transfer full_frame_env []
          (I2C_FRAME_SIZE px4flow_headers + I2C_INTEGRAL_FRAME_SIZE px4flow_headers)) =
       replicate 22 0xAA @ scenario_frame"
    by (simp add: full_frame_env_def px4flow_headers_def scenario_frame_def)
  have flen: "length (snd (transfer full_frame_env []
          (I2C_FRAME_SIZE px4flow_headers + I2C_INTEGRAL_FRAME_SIZE px4flow_headers))) =
     I2C_FRAME_SIZE px4flow_headers + I2C_INTEGRAL_FRAME_SIZE px4flow_headers"
    unfolding frx by (simp add: px4flow_headers_def scenario_frame_def)
  have fsz: "I2C_FRAME_SIZE px4flow_headers = 22"
    by (simp add: px4flow_headers_def)
  have a: "fst (collect px4flow_headers (example_env 0 0 0) (example_driver, no_effects)) = PX4_OK \<and>
      frame_integral (fst (snd (collect px4flow_headers (example_env 0 0 0)
        (example_driver, no_effects)))) =
      scenario_frame"
    using decode_total_deterministic
            [of px4flow_headers "example_env 0 0 0" example_driver no_effects example_driver
                no_effects] ok len
    unfolding rx by blast
  have b: "fst (collect_reg 0x00 px4flow_headers full_frame_env (example_driver, no_effects)) =
        PX4_OK \<and>
      frame (fst (snd (collect_reg 0x00 px4flow_headers full_frame_env
        (example_driver, no_effects)))) =
      take (I2C_FRAME_SIZE px4flow_headers) (replicate 22 0xAA @ scenario_frame) \<and>
      frame_integral (fst (snd (collect_reg 0x00 px4flow_headers full_frame_env
        (example_driver, no_effects)))) =
      drop (I2C_FRAME_SIZE px4flow_headers) (replicate 22 0xAA @ scenario_frame)"
    using decode_total_deterministic
            [of px4flow_headers full_frame_env example_driver no_effects example_driver
                no_effects] fok flen
    unfolding frx by blast
  show ?thesis
    using ok len fok flen a b by (simp add: fsz)
qed

subsection \<open>The axis rotation\<close>

text \<open>
  Claim C8. The identity rotation returns every vector unchanged; every rotation of the
  enumeration has an inverse in the enumeration (\<open>inverse_rotation\<close> names it) that
  brings every rotated vector back; and a rotation keeps the norm of the two in-plane
  components and the third component. Over the reals the equalities are exact.
\<close>

theorem rotation_properties:
  "rotate_3f ROTATION_NONE v = v \<and>
   (\<exists>r'. \<forall>u. rotate_3f r' (rotate_3f r u) = u) \<and>
   rotate_3f (inverse_rotation r) (rotate_3f r v) = v \<and>
   (case rotate_3f r (x, y, z) of
      (x', y', z') \<Rightarrow> sqrt (x'\<^sup>2 + y'\<^sup>2) = sqrt (x\<^sup>2 + y\<^sup>2) \<and> z' = z)"
proof -
  have "rotate_3f ROTATION_NONE v = v" by (cases v) simp
  moreover have "\<exists>r'. \<forall>u. rotate_3f r' (rotate_3f r u) = u"
    using rotate_3f_inverse by blast
  ultimately show ?thesis
    by (simp add: rotate_3f_inverse rotate_3f_in_plane)
qed

subsection \<open>Scheduling and timestamps\<close>

text \<open>
  Claim C9. When \<^verbatim>\<open>measure\<close> and \<^verbatim>\<open>collect\<close> both return \<^verbatim>\<open>OK\<close>, the only scheduling
  call of the tick is \<^verbatim>\<open>ScheduleDelayed\<close> with the default interval of 100000
  microseconds, which lies between the minimum of 10 ms and the maximum of 1 s.
\<close>

theorem success_path_interval:
  assumes "fst (measure_px4flow e (s, no_effects)) = OK"
    and "fst (collect H e (snd (measure_px4flow e (s, no_effects)))) = OK"
  shows "scheduled (snd (RunImpl H e s)) =
           [ScheduleDelayed PX4FLOW_CONVERSION_INTERVAL_DEFAULT] \<and>
         PX4FLOW_CONVERSION_INTERVAL_DEFAULT = 100000 \<and>
         PX4FLOW_CONVERSION_INTERVAL_MIN \<le> PX4FLOW_CONVERSION_INTERVAL_DEFAULT \<and>
         PX4FLOW_CONVERSION_INTERVAL_DEFAULT \<le> PX4FLOW_CONVERSION_INTERVAL_MAX \<and>
         PX4FLOW_CONVERSION_INTERVAL_MIN = 10000 \<and>
         PX4FLOW_CONVERSION_INTERVAL_MAX = 1000000"
proof -
  have "\<not> collect_status H e < 0"
  proof
    assume "collect_status H e < 0"
    then have "fst (collect H e (snd (measure_px4flow e (s, no_effects)))) < 0"
      by (simp add: tick_defs)
    with assms(2) show False by (simp add: OK_def)
  qed
  then show ?thesis
    by (simp add: RunImpl_collect_success PX4FLOW_CONVERSION_INTERVAL_DEFAULT_def
        PX4FLOW_CONVERSION_INTERVAL_MIN_def PX4FLOW_CONVERSION_INTERVAL_MAX_def)
qed

theorem success_path_interval_witness:
  "fst (measure_px4flow (example_env 0 0 0) (example_driver, no_effects)) = OK \<and>
   fst (collect px4flow_headers (example_env 0 0 0)
          (snd (measure_px4flow (example_env 0 0 0) (example_driver, no_effects)))) = OK \<and>
   scheduled (snd (RunImpl px4flow_headers (example_env 0 0 0) example_driver)) =
     [ScheduleDelayed 100000]"
proof -
  have m: "fst (measure_px4flow (example_env 0 0 0) (example_driver, no_effects)) = OK"
    unfolding measure_status_ret by (simp add: example_env_simps OK_def)
  have c: "fst (collect px4flow_headers (example_env 0 0 0)
          (snd (measure_px4flow (example_env 0 0 0) (example_driver, no_effects)))) = OK"
    by (cases "snd (measure_px4flow (example_env 0 0 0) (example_driver, no_effects))")
       (simp add: collect_status_ret example_env_simps)
  show ?thesis
    using success_path_interval [OF m c] m c by simp
qed

text \<open>
  Claim C10. In every FlowSample a tick publishes, the sample timestamp is at most the
  publish timestamp: the sample timestamp is the earlier reading of the clock.
\<close>

theorem flow_timestamps_ordered:
  "\<forall>r \<in> set (flow_pub (snd (RunImpl H e s))). timestamp_sample r \<le> timestamp r"
  by (simp add: tick_defs hrt_absolute_time_def split: prod.splits)

theorem flow_timestamps_ordered_witness:
  "hd (flow_pub (snd (RunImpl px4flow_headers (example_env 0 0 0) example_driver)))
     \<in> set (flow_pub (snd (RunImpl px4flow_headers (example_env 0 0 0) example_driver))) \<and>
   timestamp_sample (hd (flow_pub (snd (RunImpl px4flow_headers (example_env 0 0 0) example_driver)))) = 1000000 \<and>
   timestamp (hd (flow_pub (snd (RunImpl px4flow_headers (example_env 0 0 0) example_driver)))) = 1000030 \<and>
   timestamp_sample (hd (flow_pub (snd (RunImpl px4flow_headers (example_env 0 0 0) example_driver))))
     \<le> timestamp (hd (flow_pub (snd (RunImpl px4flow_headers (example_env 0 0 0) example_driver))))"
proof -
  have mem: "hd (flow_pub (snd (RunImpl px4flow_headers (example_env 0 0 0) example_driver)))
     \<in> set (flow_pub (snd (RunImpl px4flow_headers (example_env 0 0 0) example_driver)))"
    by (simp add: example_tick)
  show ?thesis
    using flow_timestamps_ordered [THEN bspec, OF mem] mem
    by (simp add: example_tick)
qed

end
